theory Spec2Isabelle
  imports Complex_Main
begin

section \<open>Python numerics used by the trading engine\<close>

text \<open>
  The engine computes with Python floats.  They are modelled as exact real numbers: every
  property below is a property of the arithmetic the source writes down, not of binary
  rounding.  \<open>int(x)\<close> truncates towards zero, \<open>round(x)\<close> rounds to the nearest integer
  with ties going to the even one, and \<open>round(x, d)\<close> does the same at \<open>d\<close> decimals.
\<close>

definition py_int :: "real \<Rightarrow> int" where
  "py_int x = (if x < 0 then - \<lfloor>- x\<rfloor> else \<lfloor>x\<rfloor>)"

definition py_round :: "real \<Rightarrow> int" where
  "py_round x =
     (let f = \<lfloor>x\<rfloor>; d = x - of_int f
      in if d < 1 / 2 then f
         else if 1 / 2 < d then f + 1
         else if even f then f else f + 1)"

definition py_round_nd :: "real \<Rightarrow> nat \<Rightarrow> real" where
  "py_round_nd x d = of_int (py_round (x * 10 ^ d)) / 10 ^ d"

text \<open>
  \<open>len(str(step).split('.')[-1].rstrip('0'))\<close> counts the digits that \<open>str\<close> prints
  after the decimal point.  For a step of at least \<open>0.0001\<close> Python prints positional
  notation and the count is the number of decimal places of the step.  Below that Python
  prints exponent notation (\<open>1e-05\<close>, \<open>2.5e-06\<close>), the piece after the last point is
  \<open>5e-06\<close> (or the whole string when the mantissa has no point), and only trailing zeros
  of the exponent are stripped.
\<close>

fun decimal_places :: "nat \<Rightarrow> real \<Rightarrow> nat" where
  "decimal_places 0 x = 0"
| "decimal_places (Suc n) x =
     (if x = of_int \<lfloor>x\<rfloor> then 0 else Suc (decimal_places n (10 * x)))"

fun sci_exponent :: "nat \<Rightarrow> real \<Rightarrow> nat" where
  "sci_exponent 0 x = 0"
| "sci_exponent (Suc n) x = (if 1 \<le> x then 0 else Suc (sci_exponent n (10 * x)))"

fun strip_zeros :: "nat \<Rightarrow> nat \<Rightarrow> nat" where
  "strip_zeros 0 e = e"
| "strip_zeros (Suc n) e = (if e \<noteq> 0 \<and> e mod 10 = 0 then strip_zeros n (e div 10) else e)"

fun digit_count :: "nat \<Rightarrow> nat \<Rightarrow> nat" where
  "digit_count 0 e = 1"
| "digit_count (Suc n) e = (if e < 10 then 1 else Suc (digit_count n (e div 10)))"

definition exponent_chars :: "nat \<Rightarrow> nat" where
  "exponent_chars e =
     (if e < 10 then 2
      else digit_count 4 (strip_zeros 4 e))"

definition decimals_of :: "real \<Rightarrow> nat" where
  "decimals_of step =
     (if 0 < step \<and> step < 1 / 10000 then
        (let e = sci_exponent 400 step;
             k = decimal_places 17 (step * 10 ^ e)
         in (if k = 0 then 1 else k) + 2 + exponent_chars e)
      else decimal_places 25 step)"

section \<open>Instrument rules and numeric formatting\<close>

text \<open>
  One entry of \<open>self.trading_rules\<close>, as \<open>_load_trading_rules\<close> builds it from the
  exchange's instrument description.
\<close>

record trading_rule =
  qty_step :: real
  min_order_qty :: real
  max_order_qty :: real
  min_order_amt :: real
  max_order_amt :: real
  tick_size :: real
  min_price :: real
  max_price :: real
  status :: string
  unified_margin_trade :: bool

type_synonym rules_table = "string \<rightharpoonup> trading_rule"

datatype py_error = ZeroDivisionError | AttributeError

text \<open>
  \<open>_format_quantity\<close>: the step-rounded quantity (truncated for a step of at least 1,
  rounded to nearest otherwise) before the bounds are applied, and the final value.  With
  a step of 0 the division \<open>qty / qty_step\<close> raises.
\<close>

definition step_quantity :: "trading_rule \<Rightarrow> real \<Rightarrow> py_error + real" where
  "step_quantity r qty =
     (if 1 \<le> qty_step r then Inr (of_int (py_int (qty / qty_step r)) * qty_step r)
      else if qty_step r = 0 then Inl ZeroDivisionError
      else Inr (py_round_nd (of_int (py_round (qty / qty_step r)) * qty_step r)
                  (decimals_of (qty_step r))))"

definition format_quantity :: "rules_table \<Rightarrow> string \<Rightarrow> real \<Rightarrow> py_error + real" where
  "format_quantity rules symbol qty =
     (case rules symbol of
        None \<Rightarrow> Inr (py_round_nd qty 3)
      | Some r \<Rightarrow>
          (case step_quantity r qty of
             Inl e \<Rightarrow> Inl e
           | Inr stepped \<Rightarrow>
               (let formatted_qty = stepped;
                    formatted_qty = (if formatted_qty < min_order_qty r then min_order_qty r
                                     else formatted_qty);
                    formatted_qty = (if max_order_qty r < formatted_qty then max_order_qty r
                                     else formatted_qty)
                in Inr formatted_qty)))"

text \<open>
  \<open>_format_price\<close>.  The class defines the method twice; the later definition, the one
  with the price bounds, is the one Python keeps.  With a tick of 0 the division
  \<open>price / tick_size\<close> raises.
\<close>

definition step_price :: "trading_rule \<Rightarrow> real \<Rightarrow> py_error + real" where
  "step_price r price =
     (if 1 \<le> tick_size r then Inr (of_int (py_int (price / tick_size r)) * tick_size r)
      else if tick_size r = 0 then Inl ZeroDivisionError
      else Inr (py_round_nd (of_int (py_round (price / tick_size r)) * tick_size r)
                  (decimals_of (tick_size r))))"

definition format_price :: "rules_table \<Rightarrow> string \<Rightarrow> real \<Rightarrow> py_error + real" where
  "format_price rules symbol price =
     (case rules symbol of
        None \<Rightarrow> Inr (py_round_nd price 2)
      | Some r \<Rightarrow>
          (case step_price r price of
             Inl e \<Rightarrow> Inl e
           | Inr stepped \<Rightarrow>
               (let formatted_price = stepped;
                    formatted_price = (if formatted_price < min_price r then min_price r
                                       else formatted_price);
                    formatted_price = (if max_price r < formatted_price then max_price r
                                       else formatted_price)
                in Inr formatted_price)))"

datatype order_reject =
    RulesNotLoaded
  | NotTrading
  | NoUnifiedMargin
  | QtyBelowMin
  | QtyAboveMax
  | AmountBelowMin
  | AmountAboveMax
  | PriceBelowMin
  | PriceAboveMax

definition validate_order :: "rules_table \<Rightarrow> string \<Rightarrow> real \<Rightarrow> real \<Rightarrow> order_reject option" where
  "validate_order rules symbol qty price =
     (case rules symbol of
        None \<Rightarrow> Some RulesNotLoaded
      | Some r \<Rightarrow>
          if status r \<noteq> ''Trading'' then Some NotTrading
          else if \<not> unified_margin_trade r then Some NoUnifiedMargin
          else if qty < min_order_qty r then Some QtyBelowMin
          else if max_order_qty r < qty then Some QtyAboveMax
          else if 0 < min_order_amt r \<and> qty * price < min_order_amt r then Some AmountBelowMin
          else if 0 < max_order_amt r \<and> max_order_amt r < qty * price then Some AmountAboveMax
          else if price < min_price r then Some PriceBelowMin
          else if max_price r < price then Some PriceAboveMax
          else None)"

section \<open>Stop-loss and take-profit validation\<close>

datatype sltp_reject =
    StopNotBelowEntry
  | StopNotAboveEntry
  | StopTooClose
  | StopTooFar
  | TakeProfitNotAboveEntry
  | TakeProfitNotBelowEntry

text \<open>
  The distance test shared by both branches of \<open>_validate_stop_loss_take_profit\<close>:
  \<open>stop_pct = abs(entry_price - stop_loss) / entry_price * 100\<close>, compared with the
  bounds \<open>0.3\<close> and \<open>20.0\<close>.  Dividing by a zero entry price raises.
\<close>

definition stop_pct :: "real \<Rightarrow> real \<Rightarrow> real" where
  "stop_pct entry sl = \<bar>entry - sl\<bar> / entry * 100"

definition stop_distance_check :: "real \<Rightarrow> real \<Rightarrow> py_error + sltp_reject option" where
  "stop_distance_check entry sl =
     (if entry = 0 then Inl ZeroDivisionError
      else if stop_pct entry sl < 3 / 10 then Inr (Some StopTooClose)
      else if 20 < stop_pct entry sl then Inr (Some StopTooFar)
      else Inr None)"

text \<open>
  \<open>_validate_stop_loss_take_profit\<close>.  \<open>Inr None\<close> is the source's \<open>(True, "")\<close>,
  \<open>Inr (Some r)\<close> its \<open>(False, message)\<close>, \<open>Inl e\<close> an exception.
\<close>

definition validate_stop_loss_take_profit ::
    "string \<Rightarrow> real \<Rightarrow> real \<Rightarrow> real list \<Rightarrow> py_error + sltp_reject option" where
  "validate_stop_loss_take_profit action entry sl take_profit =
     (if action = ''LONG'' then
        (let tp_check =
               (case take_profit of
                  [] \<Rightarrow> Inr None
                | tp # _ \<Rightarrow> if 0 < tp \<and> tp \<le> entry then Inr (Some TakeProfitNotAboveEntry)
                            else Inr None)
         in if 0 < sl then
              (if entry \<le> sl then Inr (Some StopNotBelowEntry)
               else case stop_distance_check entry sl of
                      Inl e \<Rightarrow> Inl e
                    | Inr (Some r) \<Rightarrow> Inr (Some r)
                    | Inr None \<Rightarrow> tp_check)
            else tp_check)
      else if action = ''SHORT'' then
        (let tp_check =
               (case take_profit of
                  [] \<Rightarrow> Inr None
                | tp # _ \<Rightarrow> if 0 < tp \<and> entry \<le> tp then Inr (Some TakeProfitNotBelowEntry)
                            else Inr None)
         in if 0 < sl then
              (if sl \<le> entry then Inr (Some StopNotAboveEntry)
               else case stop_distance_check entry sl of
                      Inl e \<Rightarrow> Inl e
                    | Inr (Some r) \<Rightarrow> Inr (Some r)
                    | Inr None \<Rightarrow> tp_check)
            else tp_check)
      else Inr None)"

section \<open>Engine state and the exchange\<close>

text \<open>
  \<open>decision.get(key, default)\<close>: every field of the policy's answer may be missing.
\<close>

record decision =
  d_action :: "string option"
  d_target_symbol :: "string option"
  d_position_size :: "real option"
  d_leverage :: "real option"
  d_reason :: "string option"
  d_order_type :: "string option"
  d_entry_price :: "real option"
  d_stop_loss :: "real option"
  d_take_profit :: "real list option"

text \<open>
  The keyword arguments of \<open>api.place_order\<close>, and the write requests the engine sends.
  Quantities and prices travel as strings made by \<open>str\<close> and read back by \<open>float\<close>;
  they are kept as numbers.
\<close>

record order_params =
  op_symbol :: string
  op_side :: string
  op_order_type :: string
  op_qty :: real
  op_price :: "real option"
  op_stop_loss :: "real option"
  op_take_profit :: "real option"
  op_reduce_only :: bool

datatype api_call =
    PlaceOrder order_params
  | CancelOrder string string
  | SetTradingStop string real

text \<open>
  An entry of \<open>self.pending_limit_orders\<close>.  The market snapshot stored with it is only
  printed into the policy prompt and is left out.
\<close>

record order_info =
  oi_symbol :: string
  oi_create_time :: real
  oi_side :: string
  oi_price :: real
  oi_qty :: real
  oi_decision :: decision
  oi_ai_symbol :: string

record position_row =
  pr_symbol :: string
  pr_side :: string
  pr_size :: real
  pr_avg_price :: real
  pr_stop_loss :: real

datatype trigger_type =
    MultiAssetCrash
  | FlashCrash
  | LiquidityCrisis
  | VolatilitySurge
  | ConsecutiveStops

text \<open>
  \<open>ExtremeMarketProtection\<close>.  Timestamps are seconds, a day is the integer number of
  whole days in the timestamp.
\<close>

record protection =
  recent_stop_losses :: "real list"
  daily_start_balance :: "real option"
  current_day :: "int option"
  protection_triggers :: "(real \<times> trigger_type) list"

record engine =
  current_position :: "string option"
  current_symbol :: "string option"
  entry_price :: real
  pending_limit_orders :: "(string \<times> order_info) list"
  position_entry_time :: "real option"
  position_entry_reason :: string
  current_trade_id :: "string option"
  total_trades :: nat
  successful_trades :: nat
  failed_trades :: nat
  trailing_stop_updates :: nat
  last_trailing_stop_check :: real
  peak_balance :: real
  max_drawdown_pct :: real
  drawdown_analysis_triggered :: bool
  extreme_protection :: protection
  api_log :: "api_call list"

record config =
  min_position_pct :: real
  max_position_pct :: real
  max_leverage :: real
  min_balance :: real
  limit_order_timeout :: real
  use_trailing_stop :: bool
  trailing_stop_distance_multiplier :: real
  trailing_stop_trigger_multiplier :: real
  trailing_stop_check_interval :: real

text \<open>The defaults of \<open>self.config.get(..., default)\<close>.\<close>

definition default_config :: config where
  "default_config =
     \<lparr>min_position_pct = 3 / 100, max_position_pct = 30 / 100, max_leverage = 15,
      min_balance = 10, limit_order_timeout = 300, use_trailing_stop = True,
      trailing_stop_distance_multiplier = 15 / 10, trailing_stop_trigger_multiplier = 1,
      trailing_stop_check_interval = 60\<rparr>"

text \<open>
  What \<open>get_realtime_data\<close> returns for a symbol: under \<open>'15m'\<close>, \<open>'1h'\<close> and \<open>'4h'\<close>
  the latest row of the timeframe (\<open>df.iloc[-1].to_dict()\<close>), with the fields that are read; a missing
  timeframe or field reads as 0, as \<open>dict.get(key, 0)\<close> does.  \<open>md_minute\<close> is the minute
  of the hour that \<open>check_liquidity_crisis\<close> looks at, \<open>None\<close> when the snapshot carries
  no timestamp.
\<close>

record candle =
  c_open :: real
  c_close :: real
  c_low :: real
  c_volume :: real
  c_atr :: real

record market_data =
  md_15m :: "candle option"
  md_1h :: "candle option"
  md_4h :: "candle option"
  md_minute :: "nat option"

definition candle_or_empty :: "candle option \<Rightarrow> candle" where
  "candle_or_empty c =
     (case c of
        None \<Rightarrow> \<lparr>c_open = 0, c_close = 0, c_low = 0, c_volume = 0, c_atr = 0\<rparr>
      | Some x \<Rightarrow> x)"

datatype limit_action = CancelAndMarket | Modify | Cancel | ContinueWait

text \<open>
  What the exchange, the clock, the journal and the policy answer.  Every answer may depend
  on the write requests sent so far.  \<open>None\<close> is the client's \<open>None\<close> (a failed call),
  an empty list its empty or missing list.
\<close>

record exchange =
  get_ticker :: "api_call list \<Rightarrow> string \<Rightarrow> real option"
  get_positions :: "api_call list \<Rightarrow> string option \<Rightarrow> position_row list"
  get_wallet_balance :: "api_call list \<Rightarrow> real"
  place_order :: "api_call list \<Rightarrow> order_params \<Rightarrow> string option"
  cancel_order :: "api_call list \<Rightarrow> string \<Rightarrow> string \<Rightarrow> bool"
  get_open_orders :: "api_call list \<Rightarrow> string \<Rightarrow> (string \<times> string option) list option"
  set_trading_stop :: "api_call list \<Rightarrow> string \<Rightarrow> real \<Rightarrow> bool"
  time_now :: "api_call list \<Rightarrow> real"
  log_trade_open :: "api_call list \<Rightarrow> string option"
  ask_ai_about_limit_order :: "api_call list \<Rightarrow> string \<Rightarrow> order_info \<Rightarrow> limit_action \<times> real option"
  get_realtime_data :: "api_call list \<Rightarrow> string \<Rightarrow> market_data option"
  make_ai_decision :: "api_call list \<Rightarrow> decision"

text \<open>Python truthiness of an optional string: \<open>None\<close> and \<open>""\<close> are false.\<close>

definition truthy :: "string option \<Rightarrow> bool" where
  "truthy s = (case s of None \<Rightarrow> False | Some x \<Rightarrow> x \<noteq> [])"

text \<open>\<open>s.replace(pat, '')\<close> for a non-empty pattern: occurrences are cut out left to right.\<close>

function remove_all :: "string \<Rightarrow> string \<Rightarrow> string" where
  "remove_all pat [] = []"
| "remove_all pat (c # cs) =
     (if pat \<noteq> [] \<and> take (length pat) (c # cs) = pat
      then remove_all pat (drop (length pat) (c # cs))
      else c # remove_all pat cs)"
  by pat_completeness auto
termination
  by (relation "measure (\<lambda>(pat, s). length s)") auto

definition to_bybit_symbol :: "string \<Rightarrow> string" where
  "to_bybit_symbol symbol = remove_all ''_PERPETUAL'' symbol"

text \<open>Dictionary operations on \<open>pending_limit_orders\<close>, kept in insertion order.\<close>

fun dict_set :: "('k \<times> 'v) list \<Rightarrow> 'k \<Rightarrow> 'v \<Rightarrow> ('k \<times> 'v) list" where
  "dict_set [] k v = [(k, v)]"
| "dict_set ((k', v') # kvs) k v =
     (if k' = k then (k, v) # kvs else (k', v') # dict_set kvs k v)"

definition dict_pop :: "('k \<times> 'v) list \<Rightarrow> 'k \<Rightarrow> ('k \<times> 'v) list" where
  "dict_pop kvs k = filter (\<lambda>kv. fst kv \<noteq> k) kvs"

text \<open>
  \<open>_get_position_info\<close>: reads the positions and the wallet, and overwrites the engine's
  view of its position with the first row of positive size; an empty or missing list
  clears it.  The result is the balance and the updated engine.
\<close>

definition get_position_info :: "exchange \<Rightarrow> engine \<Rightarrow> real \<times> engine" where
  "get_position_info ex st =
     (let positions = get_positions ex (api_log st) None;
          balance = get_wallet_balance ex (api_log st)
      in if positions \<noteq> [] then
           (case find (\<lambda>pos. 0 < pr_size pos) positions of
              Some pos \<Rightarrow>
                (balance,
                 st\<lparr>current_position := Some (pr_side pos),
                    current_symbol := Some (pr_symbol pos @ ''_PERPETUAL''),
                    entry_price := pr_avg_price pos\<rparr>)
            | None \<Rightarrow> (balance, st))
         else
           (balance,
            st\<lparr>current_position := None, current_symbol := None, entry_price := 0\<rparr>))"

section \<open>Opening and closing a position\<close>

text \<open>
  \<open>_open_position\<close>.  The whole body runs inside \<open>try\<close>: an exception (the division
  by a zero ticker price, by a zero step or tick in the formatting, or by a zero order
  price in the validation) is logged and counted in \<open>failed_trades\<close>, and nothing is
  submitted.  The order price is the ticker price for a market order and the requested
  entry price for a limit order.  \<open>submit_open_order\<close> is the part after the order
  parameters are built: the request and the bookkeeping of a success.
\<close>

definition order_price_of :: "string \<Rightarrow> real \<Rightarrow> real \<Rightarrow> real" where
  "order_price_of order_type entry_px current_price =
     (if order_type = ''Market'' \<or> entry_px = 0 then current_price else entry_px)"

definition order_type_of :: "string \<Rightarrow> real \<Rightarrow> string" where
  "order_type_of order_type entry_px =
     (if order_type = ''Market'' \<or> entry_px = 0 then ''Market'' else ''Limit'')"

text \<open>
  An optional price of the order: \<open>if cond: order_params[key] = str(self._format_price(...))\<close>.
\<close>

definition format_if :: "rules_table \<Rightarrow> string \<Rightarrow> bool \<Rightarrow> real \<Rightarrow> py_error + real option" where
  "format_if rules bybit_symbol wanted price =
     (if wanted
      then (case format_price rules bybit_symbol price of
              Inl e \<Rightarrow> Inl e
            | Inr formatted \<Rightarrow> Inr (Some formatted))
      else Inr None)"

definition open_order_params ::
    "rules_table \<Rightarrow> string \<Rightarrow> string \<Rightarrow> string \<Rightarrow> real \<Rightarrow> real \<Rightarrow> real \<Rightarrow> real list
       \<Rightarrow> py_error + order_params" where
  "open_order_params rules bybit_symbol side otype qty order_price stop_loss take_profit =
     (case format_if rules bybit_symbol (otype = ''Limit'') order_price of
        Inl e \<Rightarrow> Inl e
      | Inr price \<Rightarrow>
          (case format_if rules bybit_symbol (0 < stop_loss) stop_loss of
             Inl e \<Rightarrow> Inl e
           | Inr sl \<Rightarrow>
               (case (case take_profit of
                        [] \<Rightarrow> Inr None
                      | tp # _ \<Rightarrow> format_if rules bybit_symbol (0 < tp) tp) of
                  Inl e \<Rightarrow> Inl e
                | Inr tp \<Rightarrow>
                    Inr \<lparr>op_symbol = bybit_symbol, op_side = side, op_order_type = otype,
                         op_qty = qty, op_price = price, op_stop_loss = sl,
                         op_take_profit = tp, op_reduce_only = False\<rparr>)))"

definition submit_open_order ::
    "exchange \<Rightarrow> string \<Rightarrow> string \<Rightarrow> string \<Rightarrow> string \<Rightarrow> string \<Rightarrow> real \<Rightarrow> real
       \<Rightarrow> decision \<Rightarrow> order_params \<Rightarrow> engine \<Rightarrow> engine" where
  "submit_open_order ex symbol bybit_symbol side otype reason qty order_price dec params st1 =
     (let answer = place_order ex (api_log st1) params;
          st2 = st1\<lparr>api_log := api_log st1 @ [PlaceOrder params]\<rparr>
      in case answer of
           None \<Rightarrow> st2\<lparr>failed_trades := failed_trades st2 + 1\<rparr>
         | Some order_id \<Rightarrow>
             if order_id = []
             then st2\<lparr>failed_trades := failed_trades st2 + 1\<rparr>
             else
               (let now = time_now ex (api_log st2);
                    pend =
                      (if otype = ''Limit''
                       then dict_set (pending_limit_orders st2) order_id
                              \<lparr>oi_symbol = bybit_symbol,
                               oi_create_time = now,
                               oi_side = side,
                               oi_price = order_price,
                               oi_qty = qty,
                               oi_decision = dec,
                               oi_ai_symbol = symbol\<rparr>
                       else pending_limit_orders st2)
                in st2\<lparr>total_trades := total_trades st2 + 1,
                       successful_trades := successful_trades st2 + 1,
                       pending_limit_orders := pend,
                       current_position := Some side,
                       current_symbol := Some symbol,
                       entry_price := order_price,
                       position_entry_time := Some now,
                       position_entry_reason := reason,
                       current_trade_id := log_trade_open ex (api_log st2)\<rparr>))"

definition open_position ::
    "exchange \<Rightarrow> config \<Rightarrow> rules_table \<Rightarrow> string \<Rightarrow> string \<Rightarrow> real \<Rightarrow> real \<Rightarrow> string
       \<Rightarrow> string \<Rightarrow> real \<Rightarrow> real \<Rightarrow> real list \<Rightarrow> decision \<Rightarrow> engine \<Rightarrow> engine" where
  "open_position ex cfg rules action symbol position_size_pct leverage reason order_type
       entry_px stop_loss take_profit dec st =
     (let bybit_symbol = to_bybit_symbol symbol
      in case get_ticker ex (api_log st) bybit_symbol of
           None \<Rightarrow> st
         | Some current_price \<Rightarrow>
             (let (balance, st1) = get_position_info ex st
              in if balance < min_balance cfg then st1
                 else if current_price = 0
                 then st1\<lparr>failed_trades := failed_trades st1 + 1\<rparr>
                 else
                   (let position_value = balance * position_size_pct * leverage
                    in case format_quantity rules bybit_symbol (position_value / current_price) of
                         Inl e \<Rightarrow> st1\<lparr>failed_trades := failed_trades st1 + 1\<rparr>
                       | Inr qty \<Rightarrow>
                           (case validate_order rules bybit_symbol qty current_price of
                              Some rej \<Rightarrow> st1
                            | None \<Rightarrow>
                                (let side = (if action = ''LONG'' then ''Buy'' else ''Sell'');
                                     order_price = order_price_of order_type entry_px current_price;
                                     otype = order_type_of order_type entry_px
                                 in case validate_stop_loss_take_profit action order_price
                                           stop_loss take_profit of
                                      Inl e \<Rightarrow> st1\<lparr>failed_trades := failed_trades st1 + 1\<rparr>
                                    | Inr (Some rej) \<Rightarrow> st1
                                    | Inr None \<Rightarrow>
                                        (case open_order_params rules bybit_symbol side otype qty
                                                order_price stop_loss take_profit of
                                           Inl e \<Rightarrow> st1\<lparr>failed_trades := failed_trades st1 + 1\<rparr>
                                         | Inr params \<Rightarrow>
                                             submit_open_order ex symbol bybit_symbol side otype
                                               reason qty order_price dec params st1))))))"

text \<open>
  \<open>_check_drawdown_after_close\<close>, as far as it changes the engine: the peak balance, the
  largest drawdown seen and the flag of the self-review.  Fetching candles and running the
  review write only to the journal.
\<close>

definition check_drawdown_after_close :: "real \<Rightarrow> engine \<Rightarrow> engine" where
  "check_drawdown_after_close current_balance st =
     (if peak_balance st < current_balance
      then st\<lparr>peak_balance := current_balance, drawdown_analysis_triggered := False\<rparr>
      else if 0 < peak_balance st then
        (let current_drawdown = (peak_balance st - current_balance) / peak_balance st * 100;
             st1 = (if max_drawdown_pct st < current_drawdown
                    then st\<lparr>max_drawdown_pct := current_drawdown\<rparr> else st)
         in if 10 \<le> current_drawdown \<and> \<not> drawdown_analysis_triggered st1
            then st1\<lparr>drawdown_analysis_triggered := True\<rparr>
            else st1)
      else st)"

text \<open>
  \<open>_close_position(reason)\<close>.  The reason goes to the log and to the journal's close
  record; the fill price and the profit are computed for the journal only.  On a filled
  order the engine refreshes its position view, runs the drawdown check and clears its
  position fields.
\<close>

definition close_position :: "exchange \<Rightarrow> string \<Rightarrow> engine \<Rightarrow> engine" where
  "close_position ex reason st =
     (case current_symbol st of
        None \<Rightarrow> st
      | Some symbol \<Rightarrow>
          if \<not> truthy (current_position st) \<or> symbol = [] then st
          else
            (let bybit_symbol = to_bybit_symbol symbol
             in case get_positions ex (api_log st) (Some bybit_symbol) of
                  [] \<Rightarrow> st\<lparr>current_position := None, current_symbol := None\<rparr>
                | pos # _ \<Rightarrow>
                    if pr_size pos = 0
                    then st\<lparr>current_position := None, current_symbol := None\<rparr>
                    else
                      (let side = (if current_position st = Some ''Buy'' then ''Sell''
                                   else ''Buy'');
                           params = \<lparr>op_symbol = bybit_symbol, op_side = side,
                                     op_order_type = ''Market'', op_qty = pr_size pos,
                                     op_price = None, op_stop_loss = None,
                                     op_take_profit = None, op_reduce_only = True\<rparr>;
                           answer = place_order ex (api_log st) params;
                           st1 = st\<lparr>api_log := api_log st @ [PlaceOrder params]\<rparr>
                       in if truthy answer then
                            (let st2 = st1\<lparr>total_trades := total_trades st1 + 1,
                                           successful_trades := successful_trades st1 + 1\<rparr>;
                                 (balance, st3) = get_position_info ex st2;
                                 st4 = check_drawdown_after_close balance st3
                             in st4\<lparr>current_position := None, current_symbol := None,
                                    entry_price := 0, current_trade_id := None,
                                    position_entry_time := None,
                                    position_entry_reason := []\<rparr>)
                          else st1\<lparr>failed_trades := failed_trades st1 + 1\<rparr>)))"

section \<open>Executing a decision\<close>

text \<open>
  The clamps of \<open>_execute_decision\<close>:
  \<open>min(max(raw_position_size, min_position_pct), self.max_position_pct)\<close> and
  \<open>min(max(raw_leverage, 1), max_leverage)\<close>, with the defaults \<open>0.15\<close> and \<open>15\<close> for a
  missing field.
\<close>

definition clamped_position_size :: "config \<Rightarrow> decision \<Rightarrow> real" where
  "clamped_position_size cfg dec =
     (let raw_position_size = (case d_position_size dec of None \<Rightarrow> 15 / 100 | Some p \<Rightarrow> p)
      in min (max raw_position_size (min_position_pct cfg)) (max_position_pct cfg))"

definition clamped_leverage :: "config \<Rightarrow> decision \<Rightarrow> real" where
  "clamped_leverage cfg dec =
     (let raw_leverage = (case d_leverage dec of None \<Rightarrow> 15 | Some l \<Rightarrow> l)
      in min (max raw_leverage 1) (max_leverage cfg))"

fun has_pending_order :: "(string \<times> order_info) list \<Rightarrow> string \<Rightarrow> string \<Rightarrow> bool" where
  "has_pending_order [] bybit_symbol target_side = False"
| "has_pending_order ((order_id, info) # rest) bybit_symbol target_side =
     (if oi_symbol info = bybit_symbol \<and> oi_side info = target_side then True
      else has_pending_order rest bybit_symbol target_side)"

definition need_switch :: "engine \<Rightarrow> string \<Rightarrow> string \<Rightarrow> bool" where
  "need_switch st action target_symbol =
     (current_symbol st \<noteq> Some target_symbol \<or>
      (current_symbol st = Some target_symbol \<and>
       ((action = ''LONG'' \<and> current_position st = Some ''Short'') \<or>
        (action = ''SHORT'' \<and> current_position st = Some ''Buy''))))"

definition close_for_switch :: "exchange \<Rightarrow> string \<Rightarrow> string \<Rightarrow> engine \<Rightarrow> engine" where
  "close_for_switch ex action target_symbol st =
     (if truthy (current_position st) \<and> need_switch st action target_symbol
      then close_position ex ''switch'' st else st)"

text \<open>
  \<open>_execute_decision\<close>.  The reasons handed to \<open>_close_position\<close> are fixed texts of the
  source, written here in ASCII.  A missing target symbol makes \<open>target_symbol.replace\<close>
  raise, which leaves the function.
\<close>

definition execute_decision ::
    "exchange \<Rightarrow> config \<Rightarrow> rules_table \<Rightarrow> decision \<Rightarrow> engine \<Rightarrow> py_error + engine" where
  "execute_decision ex cfg rules dec st =
     (let action = (case d_action dec of None \<Rightarrow> ''HOLD'' | Some a \<Rightarrow> a);
          position_size_pct = clamped_position_size cfg dec;
          leverage = clamped_leverage cfg dec
      in if action = ''HOLD'' then Inr st
         else if action = ''CLOSE'' then
           (if truthy (current_position st) then Inr (close_position ex ''AI close'' st)
            else Inr st)
         else if action = ''LONG'' \<or> action = ''SHORT'' then
           (case d_target_symbol dec of
              None \<Rightarrow> Inl AttributeError
            | Some target_symbol \<Rightarrow>
                (let bybit_symbol = to_bybit_symbol target_symbol;
                     target_side = (if action = ''LONG'' then ''Buy'' else ''Sell'')
                 in if has_pending_order (pending_limit_orders st) bybit_symbol target_side
                    then Inr st
                    else
                      (let st1 = close_for_switch ex action target_symbol st
                       in Inr (open_position ex cfg rules action target_symbol
                                 position_size_pct leverage
                                 (case d_reason dec of None \<Rightarrow> [] | Some r \<Rightarrow> r)
                                 (case d_order_type dec of None \<Rightarrow> ''Market'' | Some t \<Rightarrow> t)
                                 (case d_entry_price dec of None \<Rightarrow> 0 | Some e \<Rightarrow> e)
                                 (case d_stop_loss dec of None \<Rightarrow> 0 | Some s \<Rightarrow> s)
                                 (case d_take_profit dec of None \<Rightarrow> [] | Some t \<Rightarrow> t)
                                 dec st1))))
         else Inr st)"

section \<open>Extreme-market protection\<close>

definition flash_crash_threshold :: real where "flash_crash_threshold = 8 / 100"
definition volume_drop_threshold :: real where "volume_drop_threshold = 70 / 100"
definition atr_surge_threshold :: real where "atr_surge_threshold = 150 / 100"
definition multi_asset_crash_threshold :: real where "multi_asset_crash_threshold = 5 / 100"
definition max_stops_in_period :: nat where "max_stops_in_period = 3"
definition stop_loss_window_hours :: real where "stop_loss_window_hours = 4"
definition max_daily_loss_pct :: real where "max_daily_loss_pct = 15"

definition check_flash_crash :: "market_data \<Rightarrow> bool" where
  "check_flash_crash md =
     (let data_15m = candle_or_empty (md_15m md);
          open_price = c_open data_15m;
          close_price = c_close data_15m;
          low_price = c_low data_15m
      in if open_price \<le> 0 then False
         else if flash_crash_threshold < (open_price - close_price) / open_price then True
         else if flash_crash_threshold * (15 / 10) < (open_price - low_price) / open_price
         then True
         else False)"

definition check_liquidity_crisis :: "market_data \<Rightarrow> bool" where
  "check_liquidity_crisis md =
     (let current_volume = c_volume (candle_or_empty (md_15m md));
          avg_volume_4h = c_volume (candle_or_empty (md_4h md))
      in if avg_volume_4h \<le> 0 then False
         else if (case md_minute md of None \<Rightarrow> False | Some m \<Rightarrow> m mod 15 < 5) then False
         else
           (let expected_volume_15m = avg_volume_4h / 16
            in if current_volume < expected_volume_15m * (1 - volume_drop_threshold)
               then (if current_volume < expected_volume_15m * (1 / 10) then False else True)
               else False))"

definition check_volatility_surge :: "market_data \<Rightarrow> bool" where
  "check_volatility_surge md =
     (let atr_15m = c_atr (candle_or_empty (md_15m md));
          atr_4h = c_atr (candle_or_empty (md_4h md))
      in 0 < atr_4h \<and> atr_4h * atr_surge_threshold < atr_15m)"

text \<open>
  \<open>check_multi_asset_crash\<close>: the loop over \<open>all_market_data.items()\<close> collects the
  symbols whose latest 15-minute candle has a positive open and fell by more than the
  threshold; two or more of them trigger.
\<close>

fun crash_details :: "(string \<times> market_data) list \<Rightarrow> string list" where
  "crash_details [] = []"
| "crash_details ((symbol, md) # rest) =
     (let data_15m = candle_or_empty (md_15m md);
          open_price = c_open data_15m;
          close_price = c_close data_15m
      in if open_price \<le> 0 then crash_details rest
         else if multi_asset_crash_threshold < (open_price - close_price) / open_price
         then symbol # crash_details rest
         else crash_details rest)"

definition check_multi_asset_crash :: "(string \<times> market_data) list \<Rightarrow> bool" where
  "check_multi_asset_crash all_market_data = (2 \<le> length (crash_details all_market_data))"

text \<open>
  \<open>check_consecutive_stops\<close> keeps the recorded stop-loss times that are later than the
  start of the window and triggers on three or more of them; \<open>record_stop_loss\<close> appends
  a time.  Times are in seconds.
\<close>

definition check_consecutive_stops :: "real \<Rightarrow> protection \<Rightarrow> bool \<times> protection" where
  "check_consecutive_stops current_time p =
     (let window_start = current_time - stop_loss_window_hours * 3600;
          kept = filter (\<lambda>t. window_start < t) (recent_stop_losses p);
          p1 = p\<lparr>recent_stop_losses := kept\<rparr>
      in (max_stops_in_period \<le> length kept, p1))"


definition date_of :: "real \<Rightarrow> int" where
  "date_of t = \<lfloor>t / 86400\<rfloor>"

text \<open>
  \<open>check_max_daily_loss\<close>.  The first call of a day stores the balance as the day's
  baseline and reports nothing; a zero baseline makes the percentage raise.
\<close>

definition check_max_daily_loss ::
    "real \<Rightarrow> real \<Rightarrow> protection \<Rightarrow> py_error + bool \<times> protection" where
  "check_max_daily_loss current_balance t p =
     (let current_date = date_of t
      in if current_day p \<noteq> Some current_date
         then Inr (False, p\<lparr>current_day := Some current_date,
                               daily_start_balance := Some current_balance\<rparr>)
         else case daily_start_balance p of
                None \<Rightarrow> Inr (False, p\<lparr>daily_start_balance := Some current_balance\<rparr>)
              | Some start \<Rightarrow>
                  if start = 0 then Inl ZeroDivisionError
                  else if max_daily_loss_pct < (start - current_balance) / start * 100
                  then Inr (True, p)
                  else Inr (False, p))"

text \<open>
  \<open>comprehensive_check\<close>: the multi-asset detector, then the three detectors of the held
  symbol, then the consecutive stops.  Every match is appended to the reasons and to
  \<open>protection_triggers\<close>.  The balance is a parameter of the source that its body never
  reads.
\<close>

definition add_trigger ::
    "real \<Rightarrow> trigger_type \<Rightarrow> bool \<Rightarrow> trigger_type list \<times> protection
       \<Rightarrow> trigger_type list \<times> protection" where
  "add_trigger t ty matched acc =
     (if matched
      then (fst acc @ [ty],
            (snd acc)\<lparr>protection_triggers := protection_triggers (snd acc) @ [(t, ty)]\<rparr>)
      else acc)"

definition held_market_data ::
    "(string \<times> market_data) list \<Rightarrow> bool \<Rightarrow> string option \<Rightarrow> market_data option" where
  "held_market_data all_market_data has_position cur_symbol =
     (if has_position \<and> truthy cur_symbol
      then (case cur_symbol of
              None \<Rightarrow> None
            | Some s \<Rightarrow> map_of all_market_data s)
      else None)"

definition comprehensive_check ::
    "(string \<times> market_data) list \<Rightarrow> real \<Rightarrow> real \<Rightarrow> bool \<Rightarrow> string option \<Rightarrow> protection
       \<Rightarrow> bool \<times> trigger_type list \<times> protection" where
  "comprehensive_check all_market_data current_balance t has_position cur_symbol p =
     (let acc1 = add_trigger t MultiAssetCrash (check_multi_asset_crash all_market_data) ([], p);
          acc4 = (case held_market_data all_market_data has_position cur_symbol of
                    None \<Rightarrow> acc1
                  | Some md \<Rightarrow>
                      add_trigger t VolatilitySurge (check_volatility_surge md)
                        (add_trigger t LiquidityCrisis (check_liquidity_crisis md)
                           (add_trigger t FlashCrash (check_flash_crash md) acc1)));
          (is_consecutive_stops, p5) = check_consecutive_stops t (snd acc4);
          acc5 = add_trigger t ConsecutiveStops is_consecutive_stops (fst acc4, p5)
      in (fst acc5 \<noteq> [], fst acc5, snd acc5))"

section \<open>Pending limit orders\<close>

text \<open>
  \<open>_get_order_status\<close>.  For \<open>get_open_orders\<close>, \<open>None\<close> is a call that raised (the
  status is then unknown) and a list is what the client returned, empty when it returned
  nothing.  An order that is not in the list is taken as filled.
\<close>

definition get_order_status :: "exchange \<Rightarrow> engine \<Rightarrow> string \<Rightarrow> string \<Rightarrow> string option" where
  "get_order_status ex st symbol order_id =
     (case get_open_orders ex (api_log st) symbol of
        None \<Rightarrow> None
      | Some orders \<Rightarrow>
          (case find (\<lambda>order. fst order = order_id) orders of
             Some order \<Rightarrow> snd order
           | None \<Rightarrow> Some ''Filled''))"

definition market_order_params :: "order_info \<Rightarrow> order_params" where
  "market_order_params info =
     \<lparr>op_symbol = oi_symbol info, op_side = oi_side info, op_order_type = ''Market'',
      op_qty = oi_qty info, op_price = None, op_stop_loss = None, op_take_profit = None,
      op_reduce_only = False\<rparr>"

definition cancel_and_place_market_order :: "exchange \<Rightarrow> string \<Rightarrow> order_info \<Rightarrow> engine \<Rightarrow> engine" where
  "cancel_and_place_market_order ex order_id info st =
     (let success = cancel_order ex (api_log st) (oi_symbol info) order_id;
          st1 = st\<lparr>api_log := api_log st @ [CancelOrder (oi_symbol info) order_id]\<rparr>
      in if \<not> success then st1
         else st1\<lparr>api_log := api_log st1 @ [PlaceOrder (market_order_params info)]\<rparr>)"

text \<open>
  \<open>_modify_limit_order_price\<close>.  The new price is the policy's suggestion when there is
  one (and it is not 0), else 2 percent off the ticker price; it is formatted before
  anything is sent.  The old order is cancelled; when that fails and the order turns out
  filled nothing more happens.  The replacement carries the stop-loss and the first
  take-profit of the original decision, formatted after the cancellation.  An exception of
  the formatting leaves the function through its \<open>except\<close> clause with what was sent so
  far.  On success the old entry leaves the pending orders and a copy with the new price
  and a fresh creation time enters under the new id.
\<close>

definition modified_order_params ::
    "rules_table \<Rightarrow> order_info \<Rightarrow> real \<Rightarrow> py_error + order_params" where
  "modified_order_params rules info new_price_str =
     (case (case d_stop_loss (oi_decision info) of
              None \<Rightarrow> Inr None
            | Some sl \<Rightarrow> format_if rules (oi_symbol info) (sl \<noteq> 0) sl) of
        Inl e \<Rightarrow> Inl e
      | Inr sl \<Rightarrow>
          (case (case d_take_profit (oi_decision info) of
                   None \<Rightarrow> Inr None
                 | Some [] \<Rightarrow> Inr None
                 | Some (tp # _) \<Rightarrow> format_if rules (oi_symbol info) True tp) of
             Inl e \<Rightarrow> Inl e
           | Inr tp \<Rightarrow>
               Inr \<lparr>op_symbol = oi_symbol info, op_side = oi_side info,
                    op_order_type = ''Limit'', op_qty = oi_qty info,
                    op_price = Some new_price_str, op_stop_loss = sl, op_take_profit = tp,
                    op_reduce_only = False\<rparr>))"

definition suggested_or_computed :: "order_info \<Rightarrow> real option \<Rightarrow> real \<Rightarrow> real" where
  "suggested_or_computed info suggested_price current_price =
     (case suggested_price of
        Some p \<Rightarrow> if p \<noteq> 0 then p
                  else if oi_side info = ''Buy'' then current_price * (98 / 100)
                  else current_price * (102 / 100)
      | None \<Rightarrow> if oi_side info = ''Buy'' then current_price * (98 / 100)
                else current_price * (102 / 100))"

definition modify_limit_order_price ::
    "exchange \<Rightarrow> rules_table \<Rightarrow> string \<Rightarrow> order_info \<Rightarrow> real option \<Rightarrow> engine
       \<Rightarrow> real option \<times> engine" where
  "modify_limit_order_price ex rules order_id info suggested_price st =
     (case get_ticker ex (api_log st) (oi_symbol info) of
        None \<Rightarrow> (None, st)
      | Some current_price \<Rightarrow>
          (let new_price = suggested_or_computed info suggested_price current_price
           in case format_price rules (oi_symbol info) new_price of
                Inl e \<Rightarrow> (None, st)
              | Inr new_price_str \<Rightarrow>
                  (let cancel_result = cancel_order ex (api_log st) (oi_symbol info) order_id;
                       st1 = st\<lparr>api_log := api_log st @ [CancelOrder (oi_symbol info) order_id]\<rparr>
                   in if \<not> cancel_result
                         \<and> get_order_status ex st1 (oi_symbol info) order_id = Some ''Filled''
                      then (None, st1)
                      else
                        (case modified_order_params rules info new_price_str of
                           Inl e \<Rightarrow> (None, st1)
                         | Inr params \<Rightarrow>
                             (let new_order_id = place_order ex (api_log st1) params;
                                  st2 = st1\<lparr>api_log := api_log st1 @ [PlaceOrder params]\<rparr>
                              in if truthy new_order_id then
                                   (case new_order_id of
                                      None \<Rightarrow> (None, st2)
                                    | Some new_id \<Rightarrow>
                                        (Some new_price,
                                         st2\<lparr>pending_limit_orders :=
                                               dict_set (dict_pop (pending_limit_orders st2) order_id)
                                                 new_id
                                                 (info\<lparr>oi_price := new_price,
                                                       oi_create_time :=
                                                         time_now ex (api_log st2)\<rparr>)\<rparr>))
                                 else (None, st2))))))"

text \<open>
  The body of the loop of \<open>_check_pending_limit_orders\<close> for one order of the snapshot:
  the result says whether the order goes to \<open>orders_to_remove\<close>.  After a successful
  modification the source also writes the new price and time into the dictionary of the
  old order, which by then is no longer among the pending orders.
\<close>

definition process_pending_order ::
    "exchange \<Rightarrow> config \<Rightarrow> rules_table \<Rightarrow> real \<Rightarrow> string \<Rightarrow> order_info \<Rightarrow> engine
       \<Rightarrow> bool \<times> engine" where
  "process_pending_order ex cfg rules current_time order_id info st =
     (let wait_time = current_time - oi_create_time info
      in case get_order_status ex st (oi_symbol info) order_id of
           None \<Rightarrow> (False, st)
         | Some order_status \<Rightarrow>
             if order_status = ''Filled'' \<or> order_status = ''Cancelled''
                \<or> order_status = ''Rejected''
             then (True, st)
             else if limit_order_timeout cfg \<le> wait_time
                     \<and> (order_status = ''New'' \<or> order_status = ''PartiallyFilled'')
             then
               (case ask_ai_about_limit_order ex (api_log st) order_id info of
                  (CancelAndMarket, suggested) \<Rightarrow>
                    (True, cancel_and_place_market_order ex order_id info st)
                | (Modify, suggested) \<Rightarrow>
                    (False, snd (modify_limit_order_price ex rules order_id info suggested st))
                | (Cancel, suggested) \<Rightarrow>
                    (True, st\<lparr>api_log := api_log st @ [CancelOrder (oi_symbol info) order_id]\<rparr>)
                | (ContinueWait, suggested) \<Rightarrow> (False, st))
             else (False, st))"

fun process_pending_orders ::
    "exchange \<Rightarrow> config \<Rightarrow> rules_table \<Rightarrow> real \<Rightarrow> (string \<times> order_info) list \<Rightarrow> string list
       \<Rightarrow> engine \<Rightarrow> string list \<times> engine" where
  "process_pending_orders ex cfg rules current_time [] orders_to_remove st =
     (orders_to_remove, st)"
| "process_pending_orders ex cfg rules current_time ((order_id, info) # rest)
       orders_to_remove st =
     (let (remove, st1) = process_pending_order ex cfg rules current_time order_id info st
      in process_pending_orders ex cfg rules current_time rest
           (if remove then orders_to_remove @ [order_id] else orders_to_remove) st1)"

text \<open>
  \<open>for order_id in orders_to_remove: self.pending_limit_orders.pop(order_id, None)\<close>
\<close>

definition remove_orders :: "string list \<Rightarrow> engine \<Rightarrow> engine" where
  "remove_orders orders_to_remove st =
     st\<lparr>pending_limit_orders := foldl dict_pop (pending_limit_orders st) orders_to_remove\<rparr>"

definition check_pending_limit_orders :: "exchange \<Rightarrow> config \<Rightarrow> rules_table \<Rightarrow> engine \<Rightarrow> engine" where
  "check_pending_limit_orders ex cfg rules st =
     (if pending_limit_orders st = [] then st
      else
        (let current_time = time_now ex (api_log st);
             (orders_to_remove, st1) =
               process_pending_orders ex cfg rules current_time (pending_limit_orders st) [] st
         in remove_orders orders_to_remove st1))"

section \<open>Trailing stop\<close>

text \<open>
  The stop that \<open>_check_and_update_trailing_stop\<close> decides to push, before formatting:
  \<open>None\<close> when \<open>should_update\<close> stays false.  A current stop of 0 means that the exchange
  holds no stop.
\<close>

definition trailing_new_stop :: "config \<Rightarrow> string \<Rightarrow> real \<Rightarrow> real \<Rightarrow> real \<Rightarrow> real \<Rightarrow> real option" where
  "trailing_new_stop cfg side entry current_price atr current_stop_loss =
     (let trailing_distance = atr * trailing_stop_distance_multiplier cfg;
          trigger_distance = atr * trailing_stop_trigger_multiplier cfg
      in if side = ''Buy'' then
           (if trigger_distance \<le> current_price - entry then
              (let potential_stop = current_price - trailing_distance
               in if 0 < current_stop_loss
                  then (if current_stop_loss < potential_stop then Some potential_stop else None)
                  else Some (max potential_stop entry))
            else None)
         else if side = ''Sell'' then
           (if trigger_distance \<le> entry - current_price then
              (let potential_stop = current_price + trailing_distance
               in if 0 < current_stop_loss
                  then (if potential_stop < current_stop_loss then Some potential_stop else None)
                  else Some (min potential_stop entry))
            else None)
         else None)"

text \<open>
  The stop price sent for one check, if any: the decided stop, when positive, formatted
  with the rules of the held symbol.
\<close>

definition trailing_push ::
    "config \<Rightarrow> rules_table \<Rightarrow> string \<Rightarrow> string \<Rightarrow> real \<Rightarrow> real \<Rightarrow> real \<Rightarrow> real
       \<Rightarrow> py_error + real option" where
  "trailing_push cfg rules bybit_symbol side entry current_price atr current_stop_loss =
     (case trailing_new_stop cfg side entry current_price atr current_stop_loss of
        None \<Rightarrow> Inr None
      | Some new_stop_loss \<Rightarrow> format_if rules bybit_symbol (0 < new_stop_loss) new_stop_loss)"

text \<open>
  The ATR that the check reads from the market data: \<open>market_data.get('15m', {}).get('df')\<close>
  and, when that is \<open>None\<close> or shorter than 14 rows, the same under \<open>'1h'\<close>; the value is
  the last entry of the frame's \<open>atr\<close> column.  The entry of a timeframe is the dictionary
  of the latest row, whose keys are the columns of the candle frame and of its indicators;
  none of them is \<open>'df'\<close>, so \<open>.get('df')\<close> is \<open>None\<close>.  A frame is represented by its
  \<open>atr\<close> column.
\<close>

definition frame_df :: "candle option \<Rightarrow> real list option" where
  "frame_df latest = None"

definition latest_atr :: "market_data \<Rightarrow> real option" where
  "latest_atr md =
     (let from_1h = (case frame_df (md_1h md) of
                       None \<Rightarrow> None
                     | Some df_1h \<Rightarrow> if length df_1h < 14 then None else Some (last df_1h))
      in case frame_df (md_15m md) of
           None \<Rightarrow> from_1h
         | Some df_15m \<Rightarrow> if length df_15m < 14 then from_1h else Some (last df_15m))"

text \<open>
  \<open>_check_and_update_trailing_stop\<close>.  Everything after the test for a held position
  runs inside \<open>try\<close>; an exception of the formatting is logged and nothing is sent.
\<close>

definition check_and_update_trailing_stop ::
    "exchange \<Rightarrow> config \<Rightarrow> rules_table \<Rightarrow> engine \<Rightarrow> engine" where
  "check_and_update_trailing_stop ex cfg rules st =
     (if \<not> use_trailing_stop cfg then st
      else
        (let current_time = time_now ex (api_log st)
         in if current_time - last_trailing_stop_check st < trailing_stop_check_interval cfg
            then st
            else
              (let st1 = st\<lparr>last_trailing_stop_check := current_time\<rparr>
               in case current_symbol st1 of
                    None \<Rightarrow> st1
                  | Some symbol \<Rightarrow>
                      if \<not> truthy (current_position st1) \<or> symbol = [] then st1
                      else
                        (let bybit_symbol = to_bybit_symbol symbol
                         in case get_positions ex (api_log st1) (Some bybit_symbol) of
                              [] \<Rightarrow> st1
                            | position # _ \<Rightarrow>
                                if pr_size position = 0 then st1
                                else
                                  (case get_ticker ex (api_log st1) bybit_symbol of
                                     None \<Rightarrow> st1
                                   | Some current_price \<Rightarrow>
                                       (case get_realtime_data ex (api_log st1) symbol of
                                          None \<Rightarrow> st1
                                        | Some market_data \<Rightarrow>
                                            (case latest_atr market_data of
                                               None \<Rightarrow> st1
                                             | Some atr \<Rightarrow>
                                                 if atr = 0 then st1
                                                 else
                                                   (case trailing_push cfg rules bybit_symbol
                                                           (pr_side position)
                                                           (pr_avg_price position)
                                                           current_price atr
                                                           (pr_stop_loss position) of
                                                      Inl e \<Rightarrow> st1
                                                    | Inr None \<Rightarrow> st1
                                                    | Inr (Some formatted_stop) \<Rightarrow>
                                                        (let result =
                                                               set_trading_stop ex (api_log st1)
                                                                 bybit_symbol formatted_stop;
                                                             st2 = st1\<lparr>api_log := api_log st1 @
                                                                     [SetTradingStop bybit_symbol
                                                                        formatted_stop]\<rparr>
                                                         in if result
                                                            then st2\<lparr>trailing_stop_updates :=
                                                                      trailing_stop_updates st2 + 1\<rparr>
                                                            else st2)))))))))"

text \<open>
  Successive checks, each against the exchange as it answers at that moment, and the stop
  prices among the requests sent.
\<close>

fun trailing_checks :: "exchange list \<Rightarrow> config \<Rightarrow> rules_table \<Rightarrow> engine \<Rightarrow> engine" where
  "trailing_checks [] cfg rules st = st"
| "trailing_checks (ex # exs) cfg rules st =
     trailing_checks exs cfg rules (check_and_update_trailing_stop ex cfg rules st)"

fun stops_sent :: "api_call list \<Rightarrow> real list" where
  "stops_sent [] = []"
| "stops_sent (SetTradingStop bybit_symbol stop # calls) = stop # stops_sent calls"
| "stops_sent (PlaceOrder params # calls) = stops_sent calls"
| "stops_sent (CancelOrder bybit_symbol order_id # calls) = stops_sent calls"

section \<open>One iteration of the trading loop\<close>

definition check_drawdown_and_analyze :: "real \<Rightarrow> engine \<Rightarrow> engine" where
  "check_drawdown_and_analyze current_balance st =
     (let st0 = (if peak_balance st < current_balance
                 then st\<lparr>peak_balance := current_balance,
                         drawdown_analysis_triggered := False\<rparr>
                 else st)
      in if 0 < peak_balance st0 then
           (let current_drawdown =
                  (peak_balance st0 - current_balance) / peak_balance st0 * 100;
                st1 = (if max_drawdown_pct st0 < current_drawdown
                       then st0\<lparr>max_drawdown_pct := current_drawdown\<rparr> else st0)
            in if 10 \<le> current_drawdown \<and> \<not> drawdown_analysis_triggered st1
               then st1\<lparr>drawdown_analysis_triggered := True\<rparr>
               else st1)
         else st0)"

datatype iteration_outcome =
    NoMarketData
  | ProtectionPause "trigger_type list"
  | DecisionExecuted
  | LoopError py_error

text \<open>
  The body of \<open>while self.is_running\<close> in \<open>_trading_loop\<close>, for the market snapshots
  the data manager delivered: pending limit orders, position and balance, the drawdown
  watchdog, the combined protection check (followed on a match by the emergency close and
  the ten-minute pause), the policy's decision and its execution, and the trailing stop.
  An exception ends the iteration.
\<close>

definition trading_iteration ::
    "exchange \<Rightarrow> config \<Rightarrow> rules_table \<Rightarrow> (string \<times> market_data) list \<Rightarrow> engine
       \<Rightarrow> iteration_outcome \<times> engine" where
  "trading_iteration ex cfg rules all_market_data st =
     (let st0 = check_pending_limit_orders ex cfg rules st
      in if all_market_data = [] then (NoMarketData, st0)
         else
           (let (balance, st1) = get_position_info ex st0;
                st2 = (if 0 < balance then check_drawdown_and_analyze balance st1 else st1);
                (should_protect, reasons, p) =
                  comprehensive_check all_market_data balance (time_now ex (api_log st2))
                    (current_position st2 \<noteq> None) (current_symbol st2)
                    (extreme_protection st2);
                st3 = st2\<lparr>extreme_protection := p\<rparr>
            in if should_protect then
                 (ProtectionPause reasons,
                  if truthy (current_position st3) then close_position ex ''protection'' st3
                  else st3)
               else
                 (case execute_decision ex cfg rules (make_ai_decision ex (api_log st3)) st3 of
                    Inl e \<Rightarrow> (LoopError e, st3)
                  | Inr st4 \<Rightarrow>
                      (DecisionExecuted,
                       if truthy (current_position st4)
                       then check_and_update_trailing_stop ex cfg rules st4
                       else st4))))"

section \<open>Vocabulary of the specification\<close>

text \<open>
  The specification's \<open>clamp(x, lo, hi)\<close>, and the engine's view of its position: side,
  symbol and entry price.
\<close>

definition clamp :: "real \<Rightarrow> real \<Rightarrow> real \<Rightarrow> real" where
  "clamp x lo hi = max lo (min hi x)"

text \<open>
  A symbol's latest short-timeframe candle fell by more than 5 percent from open to close.
\<close>

definition candle_drop_exceeds :: "market_data \<Rightarrow> bool" where
  "candle_drop_exceeds md =
     (0 < c_open (candle_or_empty (md_15m md))
      \<and> 5 / 100 < (c_open (candle_or_empty (md_15m md)) - c_close (candle_or_empty (md_15m md)))
                    / c_open (candle_or_empty (md_15m md)))"








text \<open>
  The stop-loss and the take-profit that the specification's replacement order inherits
  from the decision of the order it replaces.
\<close>

definition decision_stop_loss :: "decision \<Rightarrow> real" where
  "decision_stop_loss dec = (case d_stop_loss dec of None \<Rightarrow> 0 | Some sl \<Rightarrow> sl)"

definition decision_take_profit :: "decision \<Rightarrow> real list" where
  "decision_take_profit dec = (case d_take_profit dec of None \<Rightarrow> [] | Some tp \<Rightarrow> tp)"

section \<open>Example data\<close>

text \<open>
  An instrument, an exchange that answers every call, and an engine without position, used
  to run the definitions on concrete inputs.
\<close>

definition btc_rule :: trading_rule where
  "btc_rule =
     \<lparr>qty_step = 1 / 1000, min_order_qty = 1 / 1000, max_order_qty = 100,
      min_order_amt = 5, max_order_amt = 0, tick_size = 1 / 10, min_price = 1 / 10,
      max_price = 200000, status = ''Trading'', unified_margin_trade = True\<rparr>"

definition demo_rules :: rules_table where
  "demo_rules = (\<lambda>s. if s = ''BTCUSDT'' then Some btc_rule else None)"

definition hold_decision :: decision where
  "hold_decision =
     \<lparr>d_action = Some ''HOLD'', d_target_symbol = None, d_position_size = None,
      d_leverage = None, d_reason = None, d_order_type = None, d_entry_price = None,
      d_stop_loss = None, d_take_profit = None\<rparr>"

definition demo_exchange :: exchange where
  "demo_exchange =
     \<lparr>get_ticker = (\<lambda>log s. Some 50000),
      get_positions = (\<lambda>log s. []),
      get_wallet_balance = (\<lambda>log. 1000),
      place_order = (\<lambda>log p. Some ''order-1''),
      cancel_order = (\<lambda>log s i. True),
      get_open_orders = (\<lambda>log s. Some []),
      set_trading_stop = (\<lambda>log s p. True),
      time_now = (\<lambda>log. 1000),
      log_trade_open = (\<lambda>log. Some ''trade-1''),
      ask_ai_about_limit_order = (\<lambda>log i info. (ContinueWait, None)),
      get_realtime_data = (\<lambda>log s. None),
      make_ai_decision = (\<lambda>log. hold_decision)\<rparr>"

definition fresh_protection :: protection where
  "fresh_protection =
     \<lparr>recent_stop_losses = [], daily_start_balance = None, current_day = None,
      protection_triggers = []\<rparr>"

definition flat_engine :: engine where
  "flat_engine =
     \<lparr>current_position = None, current_symbol = None, entry_price = 0,
      pending_limit_orders = [], position_entry_time = None, position_entry_reason = [],
      current_trade_id = None, total_trades = 0, successful_trades = 0, failed_trades = 0,
      trailing_stop_updates = 0, last_trailing_stop_check = 0, peak_balance = 0,
      max_drawdown_pct = 0, drawdown_analysis_triggered = False,
      extreme_protection = fresh_protection, api_log = []\<rparr>"

definition demo_decision :: decision where
  "demo_decision =
     \<lparr>d_action = Some ''LONG'', d_target_symbol = Some ''BTCUSDT_PERPETUAL'',
      d_position_size = Some (1 / 10), d_leverage = Some 10, d_reason = None,
      d_order_type = Some ''Market'', d_entry_price = None, d_stop_loss = None,
      d_take_profit = None\<rparr>"

definition demo_order :: order_info where
  "demo_order =
     \<lparr>oi_symbol = ''BTCUSDT'', oi_create_time = 0, oi_side = ''Buy'', oi_price = 50000,
      oi_qty = 2 / 100, oi_decision = demo_decision, oi_ai_symbol = ''BTCUSDT_PERPETUAL''\<rparr>"

definition waiting_engine :: engine where
  "waiting_engine = flat_engine\<lparr>pending_limit_orders := [(''order-0'', demo_order)]\<rparr>"



definition falling_candle :: candle where
  "falling_candle = \<lparr>c_open = 100, c_close = 94, c_low = 94, c_volume = 0, c_atr = 0\<rparr>"

definition flat_candle :: candle where
  "flat_candle = \<lparr>c_open = 100, c_close = 100, c_low = 100, c_volume = 0, c_atr = 0\<rparr>"

definition falling_data :: market_data where
  "falling_data =
     \<lparr>md_15m = Some falling_candle, md_1h = None, md_4h = None, md_minute = None\<rparr>"

definition flat_data :: market_data where
  "flat_data = \<lparr>md_15m = Some flat_candle, md_1h = None, md_4h = None, md_minute = None\<rparr>"

definition crash_market :: "(string \<times> market_data) list" where
  "crash_market =
     [(''BTCUSDT_PERPETUAL'', falling_data), (''ETHUSDT_PERPETUAL'', falling_data),
      (''SOLUSDT_PERPETUAL'', flat_data)]"

definition single_drop_market :: "(string \<times> market_data) list" where
  "single_drop_market =
     [(''BTCUSDT_PERPETUAL'', falling_data), (''ETHUSDT_PERPETUAL'', flat_data),
      (''SOLUSDT_PERPETUAL'', flat_data)]"

definition calm_market :: "(string \<times> market_data) list" where
  "calm_market =
     [(''BTCUSDT_PERPETUAL'', flat_data), (''ETHUSDT_PERPETUAL'', flat_data),
      (''SOLUSDT_PERPETUAL'', flat_data)]"

text \<open>An exchange whose wallet holds 840.\<close>

definition loss_exchange :: exchange where
  "loss_exchange = demo_exchange\<lparr>get_wallet_balance := (\<lambda>log. 840)\<rparr>"

text \<open>
  An engine that holds a long position of 0.02 BTCUSDT entered at 50000, and an exchange
  that reports this position until a request has been sent.
\<close>

definition held_row :: position_row where
  "held_row =
     \<lparr>pr_symbol = ''BTCUSDT'', pr_side = ''Buy'', pr_size = 2 / 100, pr_avg_price = 50000,
      pr_stop_loss = 49000\<rparr>"


definition holding_engine :: engine where
  "holding_engine =
     flat_engine\<lparr>current_position := Some ''Buy'',
                 current_symbol := Some ''BTCUSDT_PERPETUAL'',
                 entry_price := 50000,
                 current_trade_id := Some ''trade-1''\<rparr>"

text \<open>
  An exchange on which the pending order of the waiting engine is still open 301 seconds
  after its creation, with a policy that keeps waiting, and the same with a policy that
  moves the order to 49950.
\<close>

definition open_order_exchange :: exchange where
  "open_order_exchange =
     demo_exchange\<lparr>get_open_orders := (\<lambda>log s. Some [(''order-0'', Some ''New'')]),
                   time_now := (\<lambda>log. 301)\<rparr>"

definition modify_exchange :: exchange where
  "modify_exchange =
     open_order_exchange\<lparr>ask_ai_about_limit_order := (\<lambda>log i info. (Modify, Some 49950)),
                         place_order := (\<lambda>log p. Some ''order-2'')\<rparr>"

text \<open>
  An exchange that reports the long position whatever was sent, and a SHORT decision for
  the held symbol whose stop-loss of 49000 lies below the price of 50000.
\<close>

definition reporting_exchange :: exchange where
  "reporting_exchange = demo_exchange\<lparr>get_positions := (\<lambda>log s. [held_row])\<rparr>"


text \<open>
  An exchange that reports the long position at a price of 50300 and delivers market data
  for it.
\<close>

definition trailing_exchange :: exchange where
  "trailing_exchange =
     reporting_exchange\<lparr>get_ticker := (\<lambda>log s. Some 50300),
                        get_realtime_data := (\<lambda>log s. Some flat_data)\<rparr>"


text \<open>
  Instruments at the edges of the formatting: a tick of 0.000001 with a quantity step of
  0.000003, a minimum price that is not a multiple of the tick, and a minimum quantity above
  the maximum quantity.
\<close>

definition micro_rule :: trading_rule where
  "micro_rule =
     \<lparr>qty_step = 3 / 1000000, min_order_qty = 3 / 1000000, max_order_qty = 3,
      min_order_amt = 0, max_order_amt = 0, tick_size = 1 / 1000000, min_price = 1 / 1000000,
      max_price = 1000, status = ''Trading'', unified_margin_trade = True\<rparr>"

definition ragged_rule :: trading_rule where
  "ragged_rule =
     \<lparr>qty_step = 1 / 1000, min_order_qty = 1 / 1000, max_order_qty = 100,
      min_order_amt = 0, max_order_amt = 0, tick_size = 1 / 10, min_price = 15 / 100,
      max_price = 1000, status = ''Trading'', unified_margin_trade = True\<rparr>"

definition inverted_rule :: trading_rule where
  "inverted_rule =
     \<lparr>qty_step = 1, min_order_qty = 2, max_order_qty = 1,
      min_order_amt = 0, max_order_amt = 0, tick_size = 1 / 10, min_price = 1 / 10,
      max_price = 1000, status = ''Trading'', unified_margin_trade = True\<rparr>"

definition odd_rules :: rules_table where
  "odd_rules =
     (\<lambda>s. if s = ''MICROUSDT'' then Some micro_rule
          else if s = ''RAGGEDUSDT'' then Some ragged_rule
          else if s = ''INVERTEDUSDT'' then Some inverted_rule
          else None)"

text \<open>
  An exchange whose wallet holds 100, and a LONG decision for 3 percent of it at leverage 1.
\<close>

definition small_exchange :: exchange where
  "small_exchange = demo_exchange\<lparr>get_wallet_balance := (\<lambda>log. 100)\<rparr>"

definition small_decision :: decision where
  "small_decision =
     \<lparr>d_action = Some ''LONG'', d_target_symbol = Some ''BTCUSDT_PERPETUAL'',
      d_position_size = Some (3 / 100), d_leverage = Some 1, d_reason = None,
      d_order_type = Some ''Market'', d_entry_price = None, d_stop_loss = None,
      d_take_profit = None\<rparr>"

section \<open>Properties\<close>

subsection \<open>Opening a position\<close>

lemma get_position_info_log:
  "api_log (snd (get_position_info ex st)) = api_log st"
  by (simp add: get_position_info_def Let_def split: option.split)



lemma get_position_info_balance:
  "fst (get_position_info ex st) = get_wallet_balance ex (api_log st)"
  by (simp add: get_position_info_def Let_def split: option.split)

lemma get_position_info_protection:
  "extreme_protection (snd (get_position_info ex st)) = extreme_protection st"
  by (simp add: get_position_info_def Let_def split: option.split)




lemma check_drawdown_after_close_frame:
  "api_log (check_drawdown_after_close b st) = api_log st
   \<and> pending_limit_orders (check_drawdown_after_close b st) = pending_limit_orders st
   \<and> extreme_protection (check_drawdown_after_close b st) = extreme_protection st"
  by (simp add: check_drawdown_after_close_def Let_def)







subsection \<open>Executing a decision\<close>

lemma clamp_defaults:
  "clamped_position_size default_config dec =
     clamp (case d_position_size dec of None \<Rightarrow> 15 / 100 | Some p \<Rightarrow> p) (3 / 100) (30 / 100)"
  "clamped_leverage default_config dec =
     clamp (case d_leverage dec of None \<Rightarrow> 15 | Some l \<Rightarrow> l) 1 15"
  by (auto simp: clamped_position_size_def clamped_leverage_def clamp_def default_config_def
        Let_def split: option.splits)

lemma has_pending_order_iff:
  "has_pending_order pend bsym side \<longleftrightarrow>
     (\<exists>order_id info. (order_id, info) \<in> set pend \<and> oi_symbol info = bsym \<and> oi_side info = side)"
  by (induction pend bsym side rule: has_pending_order.induct) auto

lemma submit_open_order_log:
  "api_log (submit_open_order ex symbol bsym side otype reason qty order_price dec params st1)
     = api_log st1 @ [PlaceOrder params]"
  by (simp add: submit_open_order_def Let_def split: option.split)

lemma open_order_params_fields:
  assumes "open_order_params rules bsym side otype qty order_price stop_loss take_profit = Inr p"
  shows "op_symbol p = bsym \<and> op_side p = side \<and> op_order_type p = otype \<and> op_qty p = qty
         \<and> \<not> op_reduce_only p"
  using assms by (auto simp: open_order_params_def split: sum.splits)

lemma open_position_log:
  assumes t: "get_ticker ex (api_log st) (to_bybit_symbol symbol) = Some cur"
  shows "api_log (open_position ex cfg rules action symbol psz lev reason order_type entry_px
      stop_loss take_profit dec st) = api_log st
   \<or> (cur \<noteq> 0 \<and> (\<exists>qty p.
         format_quantity rules (to_bybit_symbol symbol)
           (get_wallet_balance ex (api_log st) * psz * lev / cur) = Inr qty
         \<and> open_order_params rules (to_bybit_symbol symbol)
              (if action = ''LONG'' then ''Buy'' else ''Sell'')
              (order_type_of order_type entry_px) qty
              (order_price_of order_type entry_px cur) stop_loss take_profit = Inr p
         \<and> api_log (open_position ex cfg rules action symbol psz lev reason order_type entry_px
              stop_loss take_profit dec st) = api_log st @ [PlaceOrder p]))"
proof -
  obtain bal st1 where g: "get_position_info ex st = (bal, st1)" by (cases "get_position_info ex st")
  have l: "api_log st1 = api_log st" using get_position_info_log[of ex st] g by simp
  have b: "bal = get_wallet_balance ex (api_log st)" using get_position_info_balance[of ex st] g by simp
  show ?thesis
    by (simp add: open_position_def Let_def t g l b[symmetric] submit_open_order_log
             split: option.split sum.split)
qed

lemma open_position_submits:
  "api_log (open_position ex cfg rules action symbol psz lev reason order_type entry_px
      stop_loss take_profit dec st) = api_log st
   \<or> (\<exists>price p. get_ticker ex (api_log st) (to_bybit_symbol symbol) = Some price \<and> price \<noteq> 0
        \<and> api_log (open_position ex cfg rules action symbol psz lev reason order_type entry_px
              stop_loss take_profit dec st) = api_log st @ [PlaceOrder p]
        \<and> \<not> op_reduce_only p \<and> op_symbol p = to_bybit_symbol symbol
        \<and> format_quantity rules (to_bybit_symbol symbol)
             (get_wallet_balance ex (api_log st) * psz * lev / price) = Inr (op_qty p))"
proof (cases "get_ticker ex (api_log st) (to_bybit_symbol symbol)")
  case None
  then show ?thesis by (simp add: open_position_def)
next
  case (Some cur)
  from open_position_log[OF Some, of cfg rules action psz lev reason order_type entry_px
      stop_loss take_profit dec]
  show ?thesis
  proof
    assume "api_log (open_position ex cfg rules action symbol psz lev reason order_type entry_px
      stop_loss take_profit dec st) = api_log st"
    then show ?thesis by (rule disjI1)
  next
    assume a: "cur \<noteq> 0 \<and> (\<exists>qty p.
         format_quantity rules (to_bybit_symbol symbol)
           (get_wallet_balance ex (api_log st) * psz * lev / cur) = Inr qty
         \<and> open_order_params rules (to_bybit_symbol symbol)
              (if action = ''LONG'' then ''Buy'' else ''Sell'')
              (order_type_of order_type entry_px) qty
              (order_price_of order_type entry_px cur) stop_loss take_profit = Inr p
         \<and> api_log (open_position ex cfg rules action symbol psz lev reason order_type entry_px
              stop_loss take_profit dec st) = api_log st @ [PlaceOrder p])"
    then obtain qty p where
      f: "format_quantity rules (to_bybit_symbol symbol)
           (get_wallet_balance ex (api_log st) * psz * lev / cur) = Inr qty"
      and o: "open_order_params rules (to_bybit_symbol symbol)
              (if action = ''LONG'' then ''Buy'' else ''Sell'')
              (order_type_of order_type entry_px) qty
              (order_price_of order_type entry_px cur) stop_loss take_profit = Inr p"
      and l: "api_log (open_position ex cfg rules action symbol psz lev reason order_type entry_px
              stop_loss take_profit dec st) = api_log st @ [PlaceOrder p]"
      by blast
    note pf = open_order_params_fields[OF o]
    show ?thesis
      apply (rule disjI2)
      apply (rule exI[of _ cur])
      apply (rule exI[of _ p])
      using a Some pf f l by simp
  qed
qed

text \<open>
  Claim C2.  With the default configuration, a LONG or SHORT decision that is not skipped
  for a duplicate pending order either submits nothing or submits exactly one opening order,
  whose quantity is the formatted value of notional / price, where the notional is
  balance * clamp(position size, 0.03, 0.30) * clamp(leverage, 1, 15), the balance is the
  wallet balance and the price the ticker price read by the attempt.  For balance 1000,
  position size 0.10, leverage 10 and price 50000 the notional is 1000 and the quantity
  0.02.
\<close>

theorem executed_order_notional_and_quantity:
  assumes act: "d_action dec = Some action"
    and ls: "action = ''LONG'' \<or> action = ''SHORT''"
    and tgt: "d_target_symbol dec = Some target_symbol"
    and nodup: "\<not> has_pending_order (pending_limit_orders st) (to_bybit_symbol target_symbol)
                   (if action = ''LONG'' then ''Buy'' else ''Sell'')"
  shows "(\<exists>st'. execute_decision ex default_config rules dec st = Inr st' \<and>
           (let st1 = close_for_switch ex action target_symbol st;
                bybit_symbol = to_bybit_symbol target_symbol;
                balance = get_wallet_balance ex (api_log st1);
                notional = balance
                  * clamp (case d_position_size dec of None \<Rightarrow> 15 / 100 | Some p \<Rightarrow> p)
                      (3 / 100) (30 / 100)
                  * clamp (case d_leverage dec of None \<Rightarrow> 15 | Some l \<Rightarrow> l) 1 15
            in api_log st' = api_log st1
               \<or> (\<exists>price p. get_ticker ex (api_log st1) bybit_symbol = Some price \<and> price \<noteq> 0
                     \<and> api_log st' = api_log st1 @ [PlaceOrder p]
                     \<and> \<not> op_reduce_only p \<and> op_symbol p = bybit_symbol
                     \<and> format_quantity rules bybit_symbol (notional / price) = Inr (op_qty p))))
       \<and> 1000 * clamp (1 / 10) (3 / 100) (30 / 100) * clamp 10 1 15 = 1000
       \<and> (1000::real) / 50000 = 2 / 100"
proof -
  have hc: "action \<noteq> ''HOLD''" "action \<noteq> ''CLOSE''" using ls by auto
  let ?st1 = "close_for_switch ex action target_symbol st"
  have e: "execute_decision ex default_config rules dec st =
        Inr (open_position ex default_config rules action target_symbol
               (clamped_position_size default_config dec) (clamped_leverage default_config dec)
               (case d_reason dec of None \<Rightarrow> [] | Some r \<Rightarrow> r)
               (case d_order_type dec of None \<Rightarrow> ''Market'' | Some t \<Rightarrow> t)
               (case d_entry_price dec of None \<Rightarrow> 0 | Some e \<Rightarrow> e)
               (case d_stop_loss dec of None \<Rightarrow> 0 | Some s \<Rightarrow> s)
               (case d_take_profit dec of None \<Rightarrow> [] | Some t \<Rightarrow> t)
               dec ?st1)"
    using act ls tgt nodup hc by (simp add: execute_decision_def Let_def)
  note s = open_position_submits[of ex default_config rules action target_symbol
               "clamped_position_size default_config dec" "clamped_leverage default_config dec"
               "case d_reason dec of None \<Rightarrow> [] | Some r \<Rightarrow> r"
               "case d_order_type dec of None \<Rightarrow> ''Market'' | Some t \<Rightarrow> t"
               "case d_entry_price dec of None \<Rightarrow> 0 | Some e \<Rightarrow> e"
               "case d_stop_loss dec of None \<Rightarrow> 0 | Some s \<Rightarrow> s"
               "case d_take_profit dec of None \<Rightarrow> [] | Some t \<Rightarrow> t" dec ?st1]
  have n: "1000 * clamp (1 / 10) (3 / 100) (30 / 100) * clamp 10 1 15 = 1000"
    by (simp add: clamp_def)
  show ?thesis
    unfolding e using s n by (simp add: Let_def clamp_defaults)
qed

theorem executed_order_notional_and_quantity_witness:
  "execute_decision demo_exchange default_config demo_rules demo_decision flat_engine \<noteq>
     Inr flat_engine
   \<and> (\<exists>st'. execute_decision demo_exchange default_config demo_rules demo_decision flat_engine
              = Inr st'
         \<and> (\<exists>p. api_log st' = [PlaceOrder p] \<and> op_qty p = 2 / 100))"
proof -
  have act: "d_action demo_decision = Some ''LONG''" by (simp add: demo_decision_def)
  have ls: "''LONG'' = ''LONG'' \<or> ''LONG'' = ''SHORT''" by simp
  have tgt: "d_target_symbol demo_decision = Some ''BTCUSDT_PERPETUAL''"
    by (simp add: demo_decision_def)
  have nodup: "\<not> has_pending_order (pending_limit_orders flat_engine)
                   (to_bybit_symbol ''BTCUSDT_PERPETUAL'')
                   (if ''LONG'' = ''LONG'' then ''Buy'' else ''Sell'')"
    by (simp add: flat_engine_def)
  have run: "execute_decision demo_exchange default_config demo_rules demo_decision flat_engine =
      Inr (flat_engine\<lparr>total_trades := 1, successful_trades := 1,
             current_position := Some ''Buy'', current_symbol := Some ''BTCUSDT_PERPETUAL'',
             entry_price := 50000, position_entry_time := Some 1000,
             current_trade_id := Some ''trade-1'',
             api_log := [PlaceOrder \<lparr>op_symbol = ''BTCUSDT'', op_side = ''Buy'',
               op_order_type = ''Market'', op_qty = 2 / 100, op_price = None,
               op_stop_loss = None, op_take_profit = None, op_reduce_only = False\<rparr>]\<rparr>)"
    by code_simp
  have ne: "flat_engine\<lparr>total_trades := 1, successful_trades := 1,
             current_position := Some ''Buy'', current_symbol := Some ''BTCUSDT_PERPETUAL'',
             entry_price := 50000, position_entry_time := Some 1000,
             current_trade_id := Some ''trade-1'',
             api_log := [PlaceOrder \<lparr>op_symbol = ''BTCUSDT'', op_side = ''Buy'',
               op_order_type = ''Market'', op_qty = 2 / 100, op_price = None,
               op_stop_loss = None, op_take_profit = None, op_reduce_only = False\<rparr>]\<rparr>
           \<noteq> flat_engine"
    by (simp add: flat_engine_def)
  show ?thesis
    using executed_order_notional_and_quantity[OF act ls tgt nodup, of demo_exchange demo_rules]
      run ne
    by simp
qed

text \<open>
  Claim C9.  A LONG or SHORT decision for a symbol and side for which a limit order is
  already pending is skipped: the engine, with its position, its pending orders and the
  requests sent so far, is returned as it was.
\<close>

theorem duplicate_pending_order_skips_decision:
  assumes act: "d_action dec = Some action"
    and ls: "action = ''LONG'' \<or> action = ''SHORT''"
    and tgt: "d_target_symbol dec = Some target_symbol"
    and dup: "\<exists>order_id info. (order_id, info) \<in> set (pending_limit_orders st)
                \<and> oi_symbol info = to_bybit_symbol target_symbol
                \<and> oi_side info = (if action = ''LONG'' then ''Buy'' else ''Sell'')"
  shows "execute_decision ex cfg rules dec st = Inr st"
proof -
  have hc: "action \<noteq> ''HOLD''" "action \<noteq> ''CLOSE''" using ls by auto
  have h: "has_pending_order (pending_limit_orders st) (to_bybit_symbol target_symbol)
             (if action = ''LONG'' then ''Buy'' else ''Sell'')"
    using dup by (simp only: has_pending_order_iff)
  show ?thesis using act ls tgt h hc by (simp add: execute_decision_def Let_def)
qed

theorem duplicate_pending_order_skips_decision_witness:
  "execute_decision demo_exchange default_config demo_rules demo_decision waiting_engine =
     Inr waiting_engine"
proof -
  have act: "d_action demo_decision = Some ''LONG''" by (simp add: demo_decision_def)
  have ls: "''LONG'' = ''LONG'' \<or> ''LONG'' = ''SHORT''" by simp
  have tgt: "d_target_symbol demo_decision = Some ''BTCUSDT_PERPETUAL''"
    by (simp add: demo_decision_def)
  have dup: "\<exists>order_id info. (order_id, info) \<in> set (pending_limit_orders waiting_engine)
                \<and> oi_symbol info = to_bybit_symbol ''BTCUSDT_PERPETUAL''
                \<and> oi_side info = (if ''LONG'' = ''LONG'' then ''Buy'' else ''Sell'')"
    by (simp add: waiting_engine_def demo_order_def to_bybit_symbol_def)
  show ?thesis
    using duplicate_pending_order_skips_decision[OF act ls tgt dup] by simp
qed

subsection \<open>Rounding and formatting\<close>




lemma py_round_mono: "x \<le> y \<Longrightarrow> py_round x \<le> py_round y"
proof -
  assume xy: "x \<le> y"
  have fx: "of_int \<lfloor>x\<rfloor> \<le> x" "x < of_int \<lfloor>x\<rfloor> + 1" by linarith+
  have fy: "of_int \<lfloor>y\<rfloor> \<le> y" "y < of_int \<lfloor>y\<rfloor> + 1" by linarith+
  have m: "\<lfloor>x\<rfloor> \<le> \<lfloor>y\<rfloor>" using xy by (rule floor_mono)
  show ?thesis
  proof (cases "\<lfloor>x\<rfloor> = \<lfloor>y\<rfloor>")
    case True
    then show ?thesis using xy by (auto simp: py_round_def Let_def)
  next
    case False
    then have "\<lfloor>x\<rfloor> + 1 \<le> \<lfloor>y\<rfloor>" using m by linarith
    moreover have "py_round x \<le> \<lfloor>x\<rfloor> + 1" by (auto simp: py_round_def Let_def)
    moreover have "\<lfloor>y\<rfloor> \<le> py_round y" by (auto simp: py_round_def Let_def)
    ultimately show ?thesis by linarith
  qed
qed



lemma py_int_mono: "x \<le> y \<Longrightarrow> py_int x \<le> py_int y"
proof -
  assume xy: "x \<le> y"
  consider "y < 0" | "x < 0" "0 \<le> y" | "0 \<le> x" by linarith
  then show ?thesis
  proof cases
    case 1
    then have "x < 0" using xy by simp
    moreover have "\<lfloor>- y\<rfloor> \<le> \<lfloor>- x\<rfloor>" using xy by (intro floor_mono) simp
    ultimately show ?thesis using 1 by (simp add: py_int_def)
  next
    case 2
    have "0 \<le> \<lfloor>- x\<rfloor>" using 2(1) by simp
    moreover have "0 \<le> \<lfloor>y\<rfloor>" using 2(2) by simp
    ultimately have "- \<lfloor>- x\<rfloor> \<le> \<lfloor>y\<rfloor>" by linarith
    then show ?thesis using 2 by (simp add: py_int_def)
  next
    case 3
    then have "0 \<le> y" using xy by simp
    moreover have "\<lfloor>x\<rfloor> \<le> \<lfloor>y\<rfloor>" using xy by (rule floor_mono)
    ultimately show ?thesis using 3 by (simp add: py_int_def)
  qed
qed


lemma py_round_nd_mono: "x \<le> y \<Longrightarrow> py_round_nd x d \<le> py_round_nd y d"
proof -
  assume "x \<le> y"
  then have "x * 10 ^ d \<le> y * 10 ^ d" by simp
  then have "py_round (x * 10 ^ d) \<le> py_round (y * 10 ^ d)" by (rule py_round_mono)
  then show ?thesis by (simp add: py_round_nd_def divide_right_mono)
qed























text \<open>
  Claim C10, amended.  For a symbol with loaded rules and a quantity whose step-rounded
  value exists: when that value is below min_order_qty and the minimum does not exceed the
  maximum, the formatted quantity is exactly min_order_qty; when it is above max_order_qty,
  the formatted quantity is max_order_qty.  With ordered bounds the quantity checks of the
  order validation never reject a formatted quantity, and an open attempt whose computed
  quantity rounds below the minimum submits nothing or an order of exactly min_order_qty,
  which is more than the computed quantity whenever that was below the minimum.
\<close>

theorem quantity_raised_to_minimum:
  assumes r: "rules bsym = Some r" and s: "step_quantity r qty = Inr v"
  shows "(v < min_order_qty r \<and> min_order_qty r \<le> max_order_qty r \<longrightarrow>
            format_quantity rules bsym qty = Inr (min_order_qty r))
       \<and> (max_order_qty r < v \<longrightarrow> format_quantity rules bsym qty = Inr (max_order_qty r))
       \<and> (min_order_qty r \<le> max_order_qty r \<longrightarrow>
            (\<exists>q. format_quantity rules bsym qty = Inr q
               \<and> validate_order rules bsym q price \<noteq> Some QtyBelowMin
               \<and> validate_order rules bsym q price \<noteq> Some QtyAboveMax))
       \<and> (\<forall>ex st symbol cur psz lev.
             to_bybit_symbol symbol = bsym
             \<and> get_ticker ex (api_log st) bsym = Some cur \<and> cur \<noteq> 0
             \<and> qty = get_wallet_balance ex (api_log st) * psz * lev / cur
             \<and> v < min_order_qty r \<and> min_order_qty r \<le> max_order_qty r \<longrightarrow>
             api_log (open_position ex cfg rules action symbol psz lev reason order_type
                        entry_px stop_loss take_profit dec st) = api_log st
             \<or> (\<exists>p. api_log (open_position ex cfg rules action symbol psz lev reason order_type
                               entry_px stop_loss take_profit dec st) = api_log st @ [PlaceOrder p]
                    \<and> op_qty p = min_order_qty r
                    \<and> (qty < min_order_qty r \<longrightarrow> qty < op_qty p)))"
proof -
  have a: "v < min_order_qty r \<and> min_order_qty r \<le> max_order_qty r \<longrightarrow>
            format_quantity rules bsym qty = Inr (min_order_qty r)"
    using r s by (simp add: format_quantity_def Let_def)
  have b: "max_order_qty r < v \<longrightarrow> format_quantity rules bsym qty = Inr (max_order_qty r)"
    using r s by (simp add: format_quantity_def Let_def)
  have c: "min_order_qty r \<le> max_order_qty r \<longrightarrow>
            (\<exists>q. format_quantity rules bsym qty = Inr q
               \<and> validate_order rules bsym q price \<noteq> Some QtyBelowMin
               \<and> validate_order rules bsym q price \<noteq> Some QtyAboveMax)"
    using r s by (auto simp: format_quantity_def validate_order_def Let_def)
  have d: "api_log (open_position ex cfg rules action symbol psz lev reason order_type
                        entry_px stop_loss take_profit dec st) = api_log st
             \<or> (\<exists>p. api_log (open_position ex cfg rules action symbol psz lev reason order_type
                               entry_px stop_loss take_profit dec st) = api_log st @ [PlaceOrder p]
                    \<and> op_qty p = min_order_qty r
                    \<and> (qty < min_order_qty r \<longrightarrow> qty < op_qty p))"
    if h: "to_bybit_symbol symbol = bsym
             \<and> get_ticker ex (api_log st) bsym = Some cur \<and> cur \<noteq> 0
             \<and> qty = get_wallet_balance ex (api_log st) * psz * lev / cur
             \<and> v < min_order_qty r \<and> min_order_qty r \<le> max_order_qty r"
    for ex st symbol cur psz lev
  proof -
    have t: "get_ticker ex (api_log st) (to_bybit_symbol symbol) = Some cur" using h by simp
    have f: "format_quantity rules (to_bybit_symbol symbol)
               (get_wallet_balance ex (api_log st) * psz * lev / cur) = Inr (min_order_qty r)"
      using a h by simp
    from open_position_log[OF t, of cfg rules action psz lev reason order_type entry_px
           stop_loss take_profit dec]
    show ?thesis
    proof
      assume "api_log (open_position ex cfg rules action symbol psz lev reason order_type entry_px
                stop_loss take_profit dec st) = api_log st"
      then show ?thesis by (rule disjI1)
    next
      assume "cur \<noteq> 0 \<and> (\<exists>qty p.
         format_quantity rules (to_bybit_symbol symbol)
           (get_wallet_balance ex (api_log st) * psz * lev / cur) = Inr qty
         \<and> open_order_params rules (to_bybit_symbol symbol)
              (if action = ''LONG'' then ''Buy'' else ''Sell'')
              (order_type_of order_type entry_px) qty
              (order_price_of order_type entry_px cur) stop_loss take_profit = Inr p
         \<and> api_log (open_position ex cfg rules action symbol psz lev reason order_type entry_px
              stop_loss take_profit dec st) = api_log st @ [PlaceOrder p])"
      then obtain q p where
        fq: "format_quantity rules (to_bybit_symbol symbol)
               (get_wallet_balance ex (api_log st) * psz * lev / cur) = Inr q"
        and o: "open_order_params rules (to_bybit_symbol symbol)
              (if action = ''LONG'' then ''Buy'' else ''Sell'')
              (order_type_of order_type entry_px) q
              (order_price_of order_type entry_px cur) stop_loss take_profit = Inr p"
        and l: "api_log (open_position ex cfg rules action symbol psz lev reason order_type
                  entry_px stop_loss take_profit dec st) = api_log st @ [PlaceOrder p]"
        by blast
      have qe: "q = min_order_qty r" using f fq by simp
      have pq: "op_qty p = min_order_qty r" using open_order_params_fields[OF o] qe by simp
      show ?thesis
        apply (rule disjI2)
        apply (rule exI[of _ p])
        using l pq by simp
    qed
  qed
  from a b c d show ?thesis by blast
qed

text \<open>
  A wallet of 100, 3 percent of it at leverage 1 and a price of 50000 ask for 0.00006
  BTCUSDT; the order that is submitted has the minimum quantity 0.001.
\<close>

theorem quantity_raised_to_minimum_witness:
  "format_quantity demo_rules ''BTCUSDT'' (6 / 100000) = Inr (1 / 1000)
   \<and> step_quantity btc_rule (6 / 100000) = Inr 0
   \<and> get_wallet_balance small_exchange [] * (3 / 100) * 1 / 50000 = 6 / 100000
   \<and> (\<exists>p. api_log (open_position small_exchange default_config demo_rules ''LONG''
                      ''BTCUSDT_PERPETUAL'' (3 / 100) 1 [] ''Market'' 0 0 [] small_decision
                      flat_engine) = [PlaceOrder p]
          \<and> op_qty p = 1 / 1000 \<and> 6 / 100000 < op_qty p)"
proof -
  have r: "demo_rules ''BTCUSDT'' = Some btc_rule" by (simp add: demo_rules_def)
  have s: "step_quantity btc_rule (6 / 100000) = Inr 0" by code_simp
  have m: "min_order_qty btc_rule = 1 / 1000" "max_order_qty btc_rule = 100"
    by (simp_all add: btc_rule_def)
  have w: "get_wallet_balance small_exchange [] * (3 / 100) * 1 / 50000 = 6 / 100000"
    by (simp add: small_exchange_def demo_exchange_def)
  note t = quantity_raised_to_minimum[where rules = demo_rules and bsym = "''BTCUSDT''"
        and qty = "6 / 100000" and v = 0 and cfg = default_config and action = "''LONG''"
        and reason = "[]" and order_type = "''Market''" and entry_px = 0 and stop_loss = 0
        and take_profit = "[]" and dec = small_decision and price = 50000, OF r s]
  from t have a: "0 < min_order_qty btc_rule \<and> min_order_qty btc_rule \<le> max_order_qty btc_rule \<longrightarrow>
            format_quantity demo_rules ''BTCUSDT'' (6 / 100000) = Inr (min_order_qty btc_rule)"
    by (rule conjunct1)
  have f: "format_quantity demo_rules ''BTCUSDT'' (6 / 100000) = Inr (1 / 1000)"
    using a m by simp
  from t have d: "\<forall>ex st symbol cur psz lev.
             to_bybit_symbol symbol = ''BTCUSDT''
             \<and> get_ticker ex (api_log st) ''BTCUSDT'' = Some cur \<and> cur \<noteq> 0
             \<and> 6 / 100000 = get_wallet_balance ex (api_log st) * psz * lev / cur
             \<and> 0 < min_order_qty btc_rule \<and> min_order_qty btc_rule \<le> max_order_qty btc_rule \<longrightarrow>
             api_log (open_position ex default_config demo_rules ''LONG'' symbol psz lev []
                        ''Market'' 0 0 [] small_decision st) = api_log st
             \<or> (\<exists>p. api_log (open_position ex default_config demo_rules ''LONG'' symbol psz lev []
                               ''Market'' 0 0 [] small_decision st) = api_log st @ [PlaceOrder p]
                    \<and> op_qty p = min_order_qty btc_rule
                    \<and> (6 / 100000 < min_order_qty btc_rule \<longrightarrow> 6 / 100000 < op_qty p))"
    by (rule conjunct2[OF conjunct2[OF conjunct2]])
  have pre: "to_bybit_symbol ''BTCUSDT_PERPETUAL'' = ''BTCUSDT''
             \<and> get_ticker small_exchange (api_log flat_engine) ''BTCUSDT'' = Some 50000
             \<and> (50000::real) \<noteq> 0
             \<and> 6 / 100000 = get_wallet_balance small_exchange (api_log flat_engine) * (3 / 100) * 1 / 50000
             \<and> 0 < min_order_qty btc_rule \<and> min_order_qty btc_rule \<le> max_order_qty btc_rule"
    by (simp add: to_bybit_symbol_def small_exchange_def demo_exchange_def flat_engine_def m)
  note d1 = d[THEN spec, of small_exchange, THEN spec, of flat_engine, THEN spec,
              of "''BTCUSDT_PERPETUAL''", THEN spec, of 50000, THEN spec, of "3 / 100",
              THEN spec, of 1, THEN mp, OF pre]
  have ne: "api_log (open_position small_exchange default_config demo_rules ''LONG''
                      ''BTCUSDT_PERPETUAL'' (3 / 100) 1 [] ''Market'' 0 0 [] small_decision
                      flat_engine) \<noteq> api_log flat_engine"
    by code_simp
  have e: "api_log flat_engine = []" by (simp add: flat_engine_def)
  from d1 ne obtain p where
    p: "api_log (open_position small_exchange default_config demo_rules ''LONG''
                      ''BTCUSDT_PERPETUAL'' (3 / 100) 1 [] ''Market'' 0 0 [] small_decision
                      flat_engine) = api_log flat_engine @ [PlaceOrder p]"
       "op_qty p = min_order_qty btc_rule"
    by blast
  have g: "\<exists>p. api_log (open_position small_exchange default_config demo_rules ''LONG''
                      ''BTCUSDT_PERPETUAL'' (3 / 100) 1 [] ''Market'' 0 0 [] small_decision
                      flat_engine) = [PlaceOrder p]
          \<and> op_qty p = 1 / 1000 \<and> 6 / 100000 < op_qty p"
    apply (rule exI[of _ p])
    using p e m by simp
  show ?thesis using f s w g by blast
qed

text \<open>
  The claim as stated fails when the minimum exceeds the maximum: with qty_step 1,
  min_order_qty 2 and max_order_qty 1 the quantity 0.5 rounds to 0, below the minimum, and
  is formatted to 1, not to the minimum 2.
\<close>

theorem quantity_not_raised_counterexample:
  "odd_rules ''INVERTEDUSDT'' = Some inverted_rule
   \<and> step_quantity inverted_rule (1 / 2) = Inr 0
   \<and> 0 < min_order_qty inverted_rule
   \<and> format_quantity odd_rules ''INVERTEDUSDT'' (1 / 2) = Inr 1
   \<and> min_order_qty inverted_rule = 2"
proof -
  have a: "odd_rules ''INVERTEDUSDT'' = Some inverted_rule" by (simp add: odd_rules_def)
  have b: "step_quantity inverted_rule (1 / 2) = Inr 0" by code_simp
  have c: "format_quantity odd_rules ''INVERTEDUSDT'' (1 / 2) = Inr 1" by code_simp
  have d: "min_order_qty inverted_rule = 2" by (simp add: inverted_rule_def)
  show ?thesis using a b c d by simp
qed

subsection \<open>Trailing stop\<close>

lemma latest_atr_none: "latest_atr md = None"
  by (simp add: latest_atr_def frame_df_def)

lemma trailing_check_result:
  "check_and_update_trailing_stop ex cfg rules st = st
   \<or> check_and_update_trailing_stop ex cfg rules st
        = st\<lparr>last_trailing_stop_check := time_now ex (api_log st)\<rparr>"
  by (simp add: check_and_update_trailing_stop_def Let_def latest_atr_none
        split: option.split list.split)

lemma trailing_check_frame:
  "api_log (check_and_update_trailing_stop ex cfg rules st) = api_log st
   \<and> extreme_protection (check_and_update_trailing_stop ex cfg rules st) = extreme_protection st
   \<and> pending_limit_orders (check_and_update_trailing_stop ex cfg rules st)
       = pending_limit_orders st
   \<and> trailing_stop_updates (check_and_update_trailing_stop ex cfg rules st)
       = trailing_stop_updates st"
  using trailing_check_result[of ex cfg rules st] by auto

lemma trailing_checks_log:
  "api_log (trailing_checks exs cfg rules st) = api_log st"
  by (induction exs arbitrary: st) (simp_all add: trailing_check_frame)

lemma trailing_new_stop_buy:
  assumes "0 < current_stop"
    and "trailing_new_stop cfg ''Buy'' entry price atr current_stop = Some s"
  shows "s = price - atr * trailing_stop_distance_multiplier cfg \<and> current_stop < s"
  using assms by (auto simp: trailing_new_stop_def Let_def split: if_splits)

lemma trailing_new_stop_sell:
  assumes "0 < current_stop"
    and "trailing_new_stop cfg ''Sell'' entry price atr current_stop = Some s"
  shows "s = price + atr * trailing_stop_distance_multiplier cfg \<and> s < current_stop"
  using assms by (auto simp: trailing_new_stop_def Let_def split: if_splits)

text \<open>
  Claim C3.  For a long position with a stop already set, the rule of the trailing-stop
  check decides on a new stop only when the candidate, current price - ATR * distance
  multiplier, is strictly above the existing stop, and the new stop is that candidate; for a
  short position only when current price + ATR * distance multiplier is strictly below the
  existing stop.  The check reads the ATR from an entry of the market data that the data
  manager never fills (the key 'df'), so it leaves before the rule and sends nothing: a
  check changes at most the time of the last check, and across any sequence of checks,
  whatever the exchange answers, the requests sent and the stop prices among them are those
  sent before.  The stop sent to the exchange therefore never decreases for a long
  position and never increases for a short one.
\<close>

theorem trailing_stop_only_improves:
  "(0 < current_stop \<and> trailing_new_stop cfg ''Buy'' entry price atr current_stop = Some s \<longrightarrow>
      s = price - atr * trailing_stop_distance_multiplier cfg \<and> current_stop < s)
   \<and> (0 < current_stop \<and> trailing_new_stop cfg ''Sell'' entry price atr current_stop = Some s \<longrightarrow>
      s = price + atr * trailing_stop_distance_multiplier cfg \<and> s < current_stop)
   \<and> (check_and_update_trailing_stop ex cfg rules st = st
      \<or> check_and_update_trailing_stop ex cfg rules st
           = st\<lparr>last_trailing_stop_check := time_now ex (api_log st)\<rparr>)
   \<and> api_log (check_and_update_trailing_stop ex cfg rules st) = api_log st
   \<and> api_log (trailing_checks exs cfg rules st) = api_log st
   \<and> stops_sent (api_log (trailing_checks exs cfg rules st)) = stops_sent (api_log st)"
proof -
  have a: "0 < current_stop \<and> trailing_new_stop cfg ''Buy'' entry price atr current_stop = Some s \<longrightarrow>
      s = price - atr * trailing_stop_distance_multiplier cfg \<and> current_stop < s"
    using trailing_new_stop_buy[of current_stop cfg entry price atr s] by blast
  have b: "0 < current_stop \<and> trailing_new_stop cfg ''Sell'' entry price atr current_stop = Some s \<longrightarrow>
      s = price + atr * trailing_stop_distance_multiplier cfg \<and> s < current_stop"
    using trailing_new_stop_sell[of current_stop cfg entry price atr s] by blast
  note c = trailing_check_result[of ex cfg rules st]
  have d: "api_log (check_and_update_trailing_stop ex cfg rules st) = api_log st"
    using trailing_check_frame[of ex cfg rules st] by blast
  have e: "api_log (trailing_checks exs cfg rules st) = api_log st"
    by (rule trailing_checks_log)
  have f: "stops_sent (api_log (trailing_checks exs cfg rules st)) = stops_sent (api_log st)"
    by (simp only: e)
  from a b c d e f show ?thesis by blast
qed

text \<open>
  A long position of BTCUSDT entered at 50000 with its stop at 49000: at a price of 50300
  and an ATR of 100 the rule decides on 50150; the check of the engine that holds the
  position, and three checks in a row, send nothing.
\<close>

theorem trailing_stop_only_improves_witness:
  "trailing_new_stop default_config ''Buy'' 50000 50300 100 49000 = Some 50150
   \<and> (49000::real) < 50150
   \<and> check_and_update_trailing_stop trailing_exchange default_config demo_rules holding_engine
       = holding_engine\<lparr>last_trailing_stop_check := 1000\<rparr>
   \<and> stops_sent (api_log (trailing_checks [trailing_exchange, trailing_exchange,
        trailing_exchange] default_config demo_rules holding_engine)) = []"
proof -
  have v: "trailing_new_stop default_config ''Buy'' 50000 50300 100 49000 = Some 50150"
    by code_simp
  have p: "(0::real) < 49000" by simp
  note t = trailing_stop_only_improves[where current_stop = 49000 and cfg = default_config
             and entry = 50000 and price = 50300 and atr = 100 and s = 50150
             and ex = trailing_exchange and rules = demo_rules and st = holding_engine
             and exs = "[trailing_exchange, trailing_exchange, trailing_exchange]"]
  from t have a: "0 < (49000::real)
        \<and> trailing_new_stop default_config ''Buy'' 50000 50300 100 49000 = Some 50150 \<longrightarrow>
      50150 = 50300 - 100 * trailing_stop_distance_multiplier default_config
      \<and> (49000::real) < 50150"
    by (rule conjunct1)
  have b: "(49000::real) < 50150" using a p v by blast
  have c: "check_and_update_trailing_stop trailing_exchange default_config demo_rules
             holding_engine \<noteq> holding_engine"
    by code_simp
  from t have d: "check_and_update_trailing_stop trailing_exchange default_config demo_rules
                    holding_engine = holding_engine
      \<or> check_and_update_trailing_stop trailing_exchange default_config demo_rules holding_engine
           = holding_engine\<lparr>last_trailing_stop_check :=
                time_now trailing_exchange (api_log holding_engine)\<rparr>"
    by (rule conjunct1[OF conjunct2[OF conjunct2]])
  have n: "time_now trailing_exchange (api_log holding_engine) = 1000"
    by (simp add: trailing_exchange_def reporting_exchange_def demo_exchange_def)
  have e: "check_and_update_trailing_stop trailing_exchange default_config demo_rules holding_engine
       = holding_engine\<lparr>last_trailing_stop_check := 1000\<rparr>"
    using c d n by simp
  from t have f: "stops_sent (api_log (trailing_checks [trailing_exchange, trailing_exchange,
        trailing_exchange] default_config demo_rules holding_engine))
        = stops_sent (api_log holding_engine)"
    by (rule conjunct2[OF conjunct2[OF conjunct2[OF conjunct2[OF conjunct2]]]])
  have g: "stops_sent (api_log holding_engine) = []"
    by (simp add: holding_engine_def flat_engine_def)
  show ?thesis using v b e f g by simp
qed

subsection \<open>Pending limit orders\<close>

lemma map_of_dict_pop:
  "map_of (dict_pop kvs k) k' = (if k' = k then None else map_of kvs k')"
  by (induction kvs) (auto simp: dict_pop_def)

lemma map_of_dict_set:
  "map_of (dict_set kvs k v) k' = (if k' = k then Some v else map_of kvs k')"
  by (induction kvs k v rule: dict_set.induct) auto

lemma map_of_foldl_dict_pop:
  "map_of (foldl dict_pop kvs rm) k = (if k \<in> set rm then None else map_of kvs k)"
  by (induction rm arbitrary: kvs) (auto simp: map_of_dict_pop)

lemma cancel_and_place_market_order_frame:
  "pending_limit_orders (cancel_and_place_market_order ex order_id info st)
     = pending_limit_orders st
   \<and> extreme_protection (cancel_and_place_market_order ex order_id info st)
     = extreme_protection st
   \<and> (\<exists>ext. api_log (cancel_and_place_market_order ex order_id info st) = api_log st @ ext)"
  by (simp add: cancel_and_place_market_order_def Let_def)

lemma modify_limit_order_price_frame:
  "extreme_protection (snd (modify_limit_order_price ex rules order_id info sp st))
     = extreme_protection st
   \<and> (\<exists>ext. api_log (snd (modify_limit_order_price ex rules order_id info sp st))
              = api_log st @ ext)"
  by (simp add: modify_limit_order_price_def Let_def split: option.split sum.split)

lemma modify_limit_order_price_other:
  assumes k: "k \<noteq> order_id"
    and fresh: "\<forall>ext p. place_order ex (api_log st @ ext) p \<noteq> Some k"
  shows "map_of (pending_limit_orders (snd (modify_limit_order_price ex rules order_id info sp st))) k
           = map_of (pending_limit_orders st) k"
proof -
  have f: "place_order ex (api_log st @ [CancelOrder (oi_symbol info) order_id]) p \<noteq> Some k" for p
    using fresh by blast
  show ?thesis
    using k f
    by (auto simp: modify_limit_order_price_def Let_def map_of_dict_set map_of_dict_pop
             split: option.split sum.split)
qed

lemma process_pending_order_frame:
  "extreme_protection (snd (process_pending_order ex cfg rules now order_id info st))
     = extreme_protection st
   \<and> (\<exists>ext. api_log (snd (process_pending_order ex cfg rules now order_id info st))
              = api_log st @ ext)"
  using modify_limit_order_price_frame[of ex rules order_id info _ st]
    cancel_and_place_market_order_frame[of ex order_id info st]
  by (auto simp: process_pending_order_def Let_def
           split: option.split prod.split limit_action.split)

lemma process_pending_order_other:
  assumes k: "k \<noteq> order_id"
    and fresh: "\<forall>ext p. place_order ex (api_log st @ ext) p \<noteq> Some k"
  shows "map_of (pending_limit_orders (snd (process_pending_order ex cfg rules now order_id info st))) k
           = map_of (pending_limit_orders st) k"
  using modify_limit_order_price_other[OF k fresh, of rules info]
    cancel_and_place_market_order_frame[of ex order_id info st]
  by (auto simp: process_pending_order_def Let_def
           split: option.split prod.split limit_action.split)

lemma process_pending_orders_frame:
  "extreme_protection (snd (process_pending_orders ex cfg rules now xs rm st))
     = extreme_protection st
   \<and> (\<exists>ext. api_log (snd (process_pending_orders ex cfg rules now xs rm st)) = api_log st @ ext)"
proof (induction xs arbitrary: rm st)
  case Nil
  then show ?case by simp
next
  case (Cons x xs)
  obtain order_id info where x: "x = (order_id, info)" by (cases x)
  obtain flag st1 where s: "process_pending_order ex cfg rules now order_id info st = (flag, st1)"
    by (cases "process_pending_order ex cfg rules now order_id info st")
  from process_pending_order_frame[of ex cfg rules now order_id info st] s
  obtain ext1 where p1: "extreme_protection st1 = extreme_protection st"
    and l1: "api_log st1 = api_log st @ ext1" by auto
  from Cons.IH[of "if flag then rm @ [order_id] else rm" st1]
  obtain ext2 where
    p2: "extreme_protection (snd (process_pending_orders ex cfg rules now xs
           (if flag then rm @ [order_id] else rm) st1)) = extreme_protection st1"
    and l2: "api_log (snd (process_pending_orders ex cfg rules now xs
           (if flag then rm @ [order_id] else rm) st1)) = api_log st1 @ ext2"
    by auto
  have e: "process_pending_orders ex cfg rules now (x # xs) rm st
             = process_pending_orders ex cfg rules now xs
                 (if flag then rm @ [order_id] else rm) st1"
    by (simp add: x s)
  show ?case unfolding e using p1 p2 l1 l2 by simp
qed

lemma process_pending_orders_other:
  assumes k: "k \<notin> fst ` set xs"
    and fresh: "\<forall>ext p. place_order ex (api_log st @ ext) p \<noteq> Some k"
  shows "map_of (pending_limit_orders (snd (process_pending_orders ex cfg rules now xs rm st))) k
           = map_of (pending_limit_orders st) k"
  using assms
proof (induction xs arbitrary: rm st)
  case Nil
  then show ?case by simp
next
  case (Cons x xs)
  obtain order_id info where x: "x = (order_id, info)" by (cases x)
  obtain flag st1 where s: "process_pending_order ex cfg rules now order_id info st = (flag, st1)"
    by (cases "process_pending_order ex cfg rules now order_id info st")
  have ko: "k \<noteq> order_id" and kx: "k \<notin> fst ` set xs" using Cons.prems(1) x by auto
  have m1: "map_of (pending_limit_orders st1) k = map_of (pending_limit_orders st) k"
    using process_pending_order_other[OF ko Cons.prems(2), of cfg rules now info] s by simp
  from process_pending_order_frame[of ex cfg rules now order_id info st] s
  obtain ext1 where l1: "api_log st1 = api_log st @ ext1" by auto
  have f1: "\<forall>ext p. place_order ex (api_log st1 @ ext) p \<noteq> Some k"
    using Cons.prems(2) l1 by simp
  have e: "process_pending_orders ex cfg rules now (x # xs) rm st
             = process_pending_orders ex cfg rules now xs
                 (if flag then rm @ [order_id] else rm) st1"
    by (simp add: x s)
  show ?case unfolding e using Cons.IH[OF kx f1] m1 by simp
qed

lemma process_pending_orders_removed:
  "set rm \<subseteq> set (fst (process_pending_orders ex cfg rules now xs rm st))
   \<and> set (fst (process_pending_orders ex cfg rules now xs rm st)) \<subseteq> set rm \<union> fst ` set xs"
proof (induction xs arbitrary: rm st)
  case Nil
  then show ?case by simp
next
  case (Cons x xs)
  obtain order_id info where x: "x = (order_id, info)" by (cases x)
  obtain flag st1 where s: "process_pending_order ex cfg rules now order_id info st = (flag, st1)"
    by (cases "process_pending_order ex cfg rules now order_id info st")
  have e: "process_pending_orders ex cfg rules now (x # xs) rm st
             = process_pending_orders ex cfg rules now xs
                 (if flag then rm @ [order_id] else rm) st1"
    by (simp add: x s)
  show ?case unfolding e using Cons.IH[of "if flag then rm @ [order_id] else rm" st1] x
    by (auto split: if_splits)
qed

lemma process_pending_orders_append:
  "process_pending_orders ex cfg rules now (xs @ ys) rm st
     = process_pending_orders ex cfg rules now ys
         (fst (process_pending_orders ex cfg rules now xs rm st))
         (snd (process_pending_orders ex cfg rules now xs rm st))"
  by (induction xs arbitrary: rm st) (auto simp: split_beta)

lemma check_pending_limit_orders_frame:
  "extreme_protection (check_pending_limit_orders ex cfg rules st) = extreme_protection st
   \<and> (\<exists>ext. api_log (check_pending_limit_orders ex cfg rules st) = api_log st @ ext)"
  using process_pending_orders_frame[of ex cfg rules "time_now ex (api_log st)"
          "pending_limit_orders st" "[]" st]
  by (auto simp: check_pending_limit_orders_def remove_orders_def Let_def split_beta)

subsection \<open>Extreme-market protection\<close>

lemma crash_details_filter:
  "crash_details amd = map fst (filter (\<lambda>sm. candle_drop_exceeds (snd sm)) amd)"
  by (induction amd rule: crash_details.induct)
     (auto simp: candle_drop_exceeds_def multi_asset_crash_threshold_def Let_def)

lemma crashed_symbols_card:
  assumes "distinct (map fst amd)"
  shows "card {s. \<exists>md. (s, md) \<in> set amd \<and> candle_drop_exceeds md} = length (crash_details amd)"
proof -
  let ?f = "filter (\<lambda>sm. candle_drop_exceeds (snd sm)) amd"
  have d: "distinct (map fst ?f)" using assms by (rule distinct_map_filter)
  have "{s. \<exists>md. (s, md) \<in> set amd \<and> candle_drop_exceeds md} = set (map fst ?f)"
    by force
  then have "card {s. \<exists>md. (s, md) \<in> set amd \<and> candle_drop_exceeds md} = length (map fst ?f)"
    using distinct_card[OF d] by simp
  then show ?thesis by (simp add: crash_details_filter)
qed

lemma add_trigger_reasons:
  "fst (add_trigger t ty matched acc) = (if matched then fst acc @ [ty] else fst acc)"
  by (simp add: add_trigger_def)

lemma comprehensive_check_reasons:
  "fst (snd (comprehensive_check amd bal t hp cs p)) =
     (if check_multi_asset_crash amd then [MultiAssetCrash] else [])
     @ (case held_market_data amd hp cs of
          None \<Rightarrow> []
        | Some md \<Rightarrow> (if check_flash_crash md then [FlashCrash] else [])
                     @ (if check_liquidity_crisis md then [LiquidityCrisis] else [])
                     @ (if check_volatility_surge md then [VolatilitySurge] else []))
     @ (if max_stops_in_period \<le> length (filter (\<lambda>s. t - stop_loss_window_hours * 3600 < s)
                                              (recent_stop_losses p))
        then [ConsecutiveStops] else [])"
  by (simp add: comprehensive_check_def Let_def add_trigger_def check_consecutive_stops_def
        split: option.split prod.split)

lemma comprehensive_check_flag:
  "fst (comprehensive_check amd bal t hp cs p) =
     (fst (snd (comprehensive_check amd bal t hp cs p)) \<noteq> [])"
  by (simp add: comprehensive_check_def Let_def split: prod.split)

text \<open>
  Claim C7.  For market data keyed by distinct symbols, the combined check lists the
  multi-asset crash among its reasons exactly when at least two symbols have a latest
  15-minute candle that fell by more than 5 percent from open to close, and then answers
  that protection is needed; when exactly one symbol shows such a drop, none of the three
  detectors of the held symbol matches and fewer than three recent stop-losses are recorded,
  it answers false with no reason.
\<close>

theorem multi_asset_crash_iff_two_symbols:
  assumes d: "distinct (map fst all_market_data)"
  shows "(MultiAssetCrash \<in> set (fst (snd (comprehensive_check all_market_data bal t hp cs p)))
            \<longleftrightarrow> 2 \<le> card {s. \<exists>md. (s, md) \<in> set all_market_data \<and> candle_drop_exceeds md})
       \<and> (2 \<le> card {s. \<exists>md. (s, md) \<in> set all_market_data \<and> candle_drop_exceeds md}
            \<longrightarrow> fst (comprehensive_check all_market_data bal t hp cs p))
       \<and> (card {s. \<exists>md. (s, md) \<in> set all_market_data \<and> candle_drop_exceeds md} = 1
          \<and> (\<forall>md. held_market_data all_market_data hp cs = Some md \<longrightarrow>
                 \<not> check_flash_crash md \<and> \<not> check_liquidity_crisis md
                 \<and> \<not> check_volatility_surge md)
          \<and> \<not> fst (check_consecutive_stops t p)
            \<longrightarrow> \<not> fst (comprehensive_check all_market_data bal t hp cs p)
                \<and> fst (snd (comprehensive_check all_market_data bal t hp cs p)) = [])"
proof -
  let ?n = "card {s. \<exists>md. (s, md) \<in> set all_market_data \<and> candle_drop_exceeds md}"
  have c: "check_multi_asset_crash all_market_data \<longleftrightarrow> 2 \<le> ?n"
    by (simp add: check_multi_asset_crash_def crashed_symbols_card[OF d])
  note r = comprehensive_check_reasons[of all_market_data bal t hp cs p]
  have a: "MultiAssetCrash \<in> set (fst (snd (comprehensive_check all_market_data bal t hp cs p)))
            \<longleftrightarrow> 2 \<le> ?n"
    unfolding r using c by (auto split: option.splits)
  have b: "2 \<le> ?n \<longrightarrow> fst (comprehensive_check all_market_data bal t hp cs p)"
    using a by (auto simp: comprehensive_check_flag)
  have e: "?n = 1
          \<and> (\<forall>md. held_market_data all_market_data hp cs = Some md \<longrightarrow>
                 \<not> check_flash_crash md \<and> \<not> check_liquidity_crisis md
                 \<and> \<not> check_volatility_surge md)
          \<and> \<not> fst (check_consecutive_stops t p)
            \<longrightarrow> \<not> fst (comprehensive_check all_market_data bal t hp cs p)
                \<and> fst (snd (comprehensive_check all_market_data bal t hp cs p)) = []"
  proof (intro impI)
    assume h: "?n = 1
          \<and> (\<forall>md. held_market_data all_market_data hp cs = Some md \<longrightarrow>
                 \<not> check_flash_crash md \<and> \<not> check_liquidity_crisis md
                 \<and> \<not> check_volatility_surge md)
          \<and> \<not> fst (check_consecutive_stops t p)"
    then have nc: "\<not> check_multi_asset_crash all_market_data" using c by simp
    have ns: "\<not> max_stops_in_period \<le> length (filter (\<lambda>s. t - stop_loss_window_hours * 3600 < s)
                                              (recent_stop_losses p))"
      using h by (simp add: check_consecutive_stops_def Let_def)
    have "fst (snd (comprehensive_check all_market_data bal t hp cs p)) = []"
      unfolding r using nc ns h by (auto split: option.splits)
    then show "\<not> fst (comprehensive_check all_market_data bal t hp cs p)
                \<and> fst (snd (comprehensive_check all_market_data bal t hp cs p)) = []"
      by (simp add: comprehensive_check_flag)
  qed
  from a b e show ?thesis by blast
qed

text \<open>Two falling symbols out of three, and one out of three.\<close>

theorem multi_asset_crash_iff_two_symbols_witness:
  "fst (comprehensive_check crash_market 1000 1000 False None fresh_protection)
   \<and> MultiAssetCrash \<in> set (fst (snd (comprehensive_check crash_market 1000 1000 False None
                                         fresh_protection)))
   \<and> \<not> fst (comprehensive_check single_drop_market 1000 1000 False None fresh_protection)"
proof -
  have d2: "distinct (map fst crash_market)" by (simp add: crash_market_def)
  have d1: "distinct (map fst single_drop_market)" by (simp add: single_drop_market_def)
  have c2: "crash_details crash_market = [''BTCUSDT_PERPETUAL'', ''ETHUSDT_PERPETUAL'']"
    by (simp add: crash_market_def falling_data_def flat_data_def falling_candle_def
          flat_candle_def candle_or_empty_def multi_asset_crash_threshold_def)
  have c1: "crash_details single_drop_market = [''BTCUSDT_PERPETUAL'']"
    by (simp add: single_drop_market_def falling_data_def flat_data_def falling_candle_def
          flat_candle_def candle_or_empty_def multi_asset_crash_threshold_def)
  have n2: "card {s. \<exists>md. (s, md) \<in> set crash_market \<and> candle_drop_exceeds md} = 2"
    using crashed_symbols_card[OF d2] c2 by simp
  have n1: "card {s. \<exists>md. (s, md) \<in> set single_drop_market \<and> candle_drop_exceeds md} = 1"
    using crashed_symbols_card[OF d1] c1 by simp
  have h: "held_market_data single_drop_market False None = None"
    by (simp add: held_market_data_def)
  have s: "\<not> fst (check_consecutive_stops 1000 fresh_protection)"
    by (simp add: check_consecutive_stops_def fresh_protection_def max_stops_in_period_def Let_def)
  note t2 = multi_asset_crash_iff_two_symbols[OF d2, of 1000 1000 False None fresh_protection]
  note t1 = multi_asset_crash_iff_two_symbols[OF d1, of 1000 1000 False None fresh_protection]
  show ?thesis using t2 t1 n2 n1 h s by simp
qed

lemma comprehensive_check_balance:
  "comprehensive_check amd bal t hp cs p = comprehensive_check amd bal' t hp cs p"
  by (simp add: comprehensive_check_def)

lemma add_trigger_protection:
  "recent_stop_losses (snd (add_trigger t ty matched acc)) = recent_stop_losses (snd acc)
   \<and> daily_start_balance (snd (add_trigger t ty matched acc)) = daily_start_balance (snd acc)
   \<and> current_day (snd (add_trigger t ty matched acc)) = current_day (snd acc)"
  by (simp add: add_trigger_def)

lemma comprehensive_check_protection:
  "recent_stop_losses (snd (snd (comprehensive_check amd bal t hp cs p)))
     = filter (\<lambda>s. t - stop_loss_window_hours * 3600 < s) (recent_stop_losses p)
   \<and> daily_start_balance (snd (snd (comprehensive_check amd bal t hp cs p)))
     = daily_start_balance p
   \<and> current_day (snd (snd (comprehensive_check amd bal t hp cs p))) = current_day p"
  by (simp add: comprehensive_check_def Let_def split_beta add_trigger_protection
        check_consecutive_stops_def split: option.split)

lemma check_drawdown_and_analyze_frame:
  "extreme_protection (check_drawdown_and_analyze b st) = extreme_protection st
   \<and> api_log (check_drawdown_and_analyze b st) = api_log st"
  by (simp add: check_drawdown_and_analyze_def Let_def)

lemma close_position_protection:
  "extreme_protection (close_position ex reason st) = extreme_protection st"
  by (simp add: close_position_def Let_def split_beta check_drawdown_after_close_frame
        get_position_info_protection split: option.split list.split)

lemma submit_open_order_protection:
  "extreme_protection (submit_open_order ex symbol bsym side otype reason qty order_price dec
      params st1) = extreme_protection st1"
  by (simp add: submit_open_order_def Let_def split: option.split)

lemma open_position_protection:
  "extreme_protection (open_position ex cfg rules action symbol psz lev reason order_type
      entry_px stop_loss take_profit dec st) = extreme_protection st"
proof (cases "get_ticker ex (api_log st) (to_bybit_symbol symbol)")
  case None
  then show ?thesis by (simp add: open_position_def)
next
  case (Some cur)
  obtain bal st1 where g: "get_position_info ex st = (bal, st1)" by (cases "get_position_info ex st")
  have p: "extreme_protection st1 = extreme_protection st"
    using get_position_info_protection[of ex st] g by simp
  show ?thesis
    by (simp add: open_position_def Let_def Some g p submit_open_order_protection
          split: option.split sum.split)
qed

lemma execute_decision_protection:
  assumes "execute_decision ex cfg rules dec st = Inr st'"
  shows "extreme_protection st' = extreme_protection st"
  using assms
  by (auto simp: execute_decision_def Let_def close_position_protection
        open_position_protection close_for_switch_def split: if_splits option.splits)

lemma trading_iteration_unfold:
  assumes "all_market_data \<noteq> []"
  shows "trading_iteration ex cfg rules all_market_data st =
     (let st0 = check_pending_limit_orders ex cfg rules st;
          balance = fst (get_position_info ex st0);
          st1 = snd (get_position_info ex st0);
          st2 = (if 0 < balance then check_drawdown_and_analyze balance st1 else st1);
          chk = comprehensive_check all_market_data balance (time_now ex (api_log st2))
                  (current_position st2 \<noteq> None) (current_symbol st2) (extreme_protection st2);
          st3 = st2\<lparr>extreme_protection := snd (snd chk)\<rparr>
      in if fst chk then
           (ProtectionPause (fst (snd chk)),
            if truthy (current_position st3) then close_position ex ''protection'' st3 else st3)
         else
           (case execute_decision ex cfg rules (make_ai_decision ex (api_log st3)) st3 of
              Inl e \<Rightarrow> (LoopError e, st3)
            | Inr st4 \<Rightarrow>
                (DecisionExecuted,
                 if truthy (current_position st4)
                 then check_and_update_trailing_stop ex cfg rules st4
                 else st4)))"
  using assms
  unfolding trading_iteration_def Let_def split_beta
  by (rule if_not_P)

lemma trading_iteration_pause:
  assumes "all_market_data \<noteq> []"
  shows "(\<exists>reasons. fst (trading_iteration ex cfg rules all_market_data st) = ProtectionPause reasons)
       = (let st0 = check_pending_limit_orders ex cfg rules st;
              balance = fst (get_position_info ex st0);
              st1 = snd (get_position_info ex st0);
              st2 = (if 0 < balance then check_drawdown_and_analyze balance st1 else st1)
          in fst (comprehensive_check all_market_data balance (time_now ex (api_log st2))
                    (current_position st2 \<noteq> None) (current_symbol st2)
                    (extreme_protection st2)))"
  unfolding trading_iteration_unfold[OF assms] Let_def
  by (simp split: sum.split)

lemma trading_iteration_protection:
  "daily_start_balance (extreme_protection (snd (trading_iteration ex cfg rules amd st)))
     = daily_start_balance (extreme_protection st)
   \<and> current_day (extreme_protection (snd (trading_iteration ex cfg rules amd st)))
     = current_day (extreme_protection st)
   \<and> (recent_stop_losses (extreme_protection (snd (trading_iteration ex cfg rules amd st)))
        = recent_stop_losses (extreme_protection st)
      \<or> (\<exists>now. recent_stop_losses (extreme_protection (snd (trading_iteration ex cfg rules amd st)))
           = filter (\<lambda>s. now - stop_loss_window_hours * 3600 < s)
               (recent_stop_losses (extreme_protection st))))"
proof (cases "amd = []")
  case True
  then show ?thesis
    using check_pending_limit_orders_frame[of ex cfg rules st]
    by (simp add: trading_iteration_def Let_def)
next
  case False
  define st0 where "st0 = check_pending_limit_orders ex cfg rules st"
  define balance where "balance = fst (get_position_info ex st0)"
  define st1 where "st1 = snd (get_position_info ex st0)"
  define st2 where "st2 = (if 0 < balance then check_drawdown_and_analyze balance st1 else st1)"
  define chk where "chk = comprehensive_check amd balance (time_now ex (api_log st2))
                    (current_position st2 \<noteq> None) (current_symbol st2)
                    (extreme_protection st2)"
  define st3 where "st3 = st2\<lparr>extreme_protection := snd (snd chk)\<rparr>"
  have e: "trading_iteration ex cfg rules amd st =
        (if fst chk then
           (ProtectionPause (fst (snd chk)),
            if truthy (current_position st3) then close_position ex ''protection'' st3 else st3)
         else
           (case execute_decision ex cfg rules (make_ai_decision ex (api_log st3)) st3 of
              Inl e \<Rightarrow> (LoopError e, st3)
            | Inr st4 \<Rightarrow>
                (DecisionExecuted,
                 if truthy (current_position st4)
                 then check_and_update_trailing_stop ex cfg rules st4
                 else st4)))"
    unfolding trading_iteration_unfold[OF False] st0_def balance_def st1_def st2_def chk_def
      st3_def Let_def ..
  have p2: "extreme_protection st2 = extreme_protection st"
    unfolding st2_def st1_def st0_def
    using check_pending_limit_orders_frame[of ex cfg rules st]
    by (simp add: check_drawdown_and_analyze_frame get_position_info_protection)
  have fin: "extreme_protection (snd (trading_iteration ex cfg rules amd st))
               = extreme_protection st3"
    unfolding e
    using execute_decision_protection[of ex cfg rules "make_ai_decision ex (api_log st3)" st3]
    by (simp add: close_position_protection trailing_check_frame split: sum.split)
  have p3: "extreme_protection st3 = snd (snd chk)" by (simp add: st3_def)
  note c = comprehensive_check_protection[of amd balance "time_now ex (api_log st2)"
             "current_position st2 \<noteq> None" "current_symbol st2" "extreme_protection st2",
             folded chk_def]
  show ?thesis
    unfolding fin p3 using c p2 by auto
qed

text \<open>
  Claim C4.  The daily-loss limit never reaches the loop.  An iteration of the trading loop
  leaves the day and the day's opening balance of the guard as they were, so no baseline is
  ever stored; the combined check, the only detector call of the loop, does not depend on
  the balance it is given; and an iteration pauses trading exactly when that combined check
  matches.
\<close>

theorem daily_loss_limit_never_checked:
  "daily_start_balance (extreme_protection (snd (trading_iteration ex cfg rules all_market_data st)))
     = daily_start_balance (extreme_protection st)
   \<and> current_day (extreme_protection (snd (trading_iteration ex cfg rules all_market_data st)))
     = current_day (extreme_protection st)
   \<and> comprehensive_check all_market_data bal t hp cs p =
       comprehensive_check all_market_data bal' t hp cs p
   \<and> (all_market_data \<noteq> [] \<longrightarrow>
       (\<exists>reasons. fst (trading_iteration ex cfg rules all_market_data st)
                    = ProtectionPause reasons)
       = (let st0 = check_pending_limit_orders ex cfg rules st;
              balance = fst (get_position_info ex st0);
              st1 = snd (get_position_info ex st0);
              st2 = (if 0 < balance then check_drawdown_and_analyze balance st1 else st1)
          in fst (comprehensive_check all_market_data balance (time_now ex (api_log st2))
                    (current_position st2 \<noteq> None) (current_symbol st2)
                    (extreme_protection st2))))"
proof -
  note a = trading_iteration_protection[of ex cfg rules all_market_data st]
  have c: "comprehensive_check all_market_data bal t hp cs p =
       comprehensive_check all_market_data bal' t hp cs p"
    by (rule comprehensive_check_balance)
  have d: "all_market_data \<noteq> [] \<longrightarrow>
       (\<exists>reasons. fst (trading_iteration ex cfg rules all_market_data st)
                    = ProtectionPause reasons)
       = (let st0 = check_pending_limit_orders ex cfg rules st;
              balance = fst (get_position_info ex st0);
              st1 = snd (get_position_info ex st0);
              st2 = (if 0 < balance then check_drawdown_and_analyze balance st1 else st1)
          in fst (comprehensive_check all_market_data balance (time_now ex (api_log st2))
                    (current_position st2 \<noteq> None) (current_symbol st2)
                    (extreme_protection st2)))"
    using trading_iteration_pause[of all_market_data ex cfg rules st] by blast
  from a c d show ?thesis by blast
qed

text \<open>
  Two iterations on the same day on a calm market, with a policy that holds: the wallet
  holds 1000 in the first and 840 in the second.  The detector, called on these two
  balances, stores 1000 and then fires on the drawdown of 16 percent.  The loop executes
  the policy's decision in the second iteration as in the first, records no trigger and
  never stores a baseline.
\<close>

theorem daily_loss_limit_never_checked_witness:
  "check_max_daily_loss 1000 1000 fresh_protection
     = Inr (False, fresh_protection\<lparr>current_day := Some 0, daily_start_balance := Some 1000\<rparr>)
   \<and> check_max_daily_loss 840 1000
        (fresh_protection\<lparr>current_day := Some 0, daily_start_balance := Some 1000\<rparr>)
     = Inr (True, fresh_protection\<lparr>current_day := Some 0, daily_start_balance := Some 1000\<rparr>)
   \<and> get_wallet_balance demo_exchange [] = 1000 \<and> get_wallet_balance loss_exchange [] = 840
   \<and> fst (trading_iteration demo_exchange default_config demo_rules calm_market flat_engine)
       = DecisionExecuted
   \<and> fst (trading_iteration loss_exchange default_config demo_rules calm_market
        (snd (trading_iteration demo_exchange default_config demo_rules calm_market flat_engine)))
       = DecisionExecuted
   \<and> protection_triggers (extreme_protection (snd (trading_iteration loss_exchange
        default_config demo_rules calm_market
        (snd (trading_iteration demo_exchange default_config demo_rules calm_market
           flat_engine))))) = []
   \<and> daily_start_balance (extreme_protection (snd (trading_iteration loss_exchange
        default_config demo_rules calm_market
        (snd (trading_iteration demo_exchange default_config demo_rules calm_market
           flat_engine))))) = None"
proof -
  let ?s1 = "snd (trading_iteration demo_exchange default_config demo_rules calm_market
                flat_engine)"
  have a: "check_max_daily_loss 1000 1000 fresh_protection
     = Inr (False, fresh_protection\<lparr>current_day := Some 0, daily_start_balance := Some 1000\<rparr>)"
    by (simp add: check_max_daily_loss_def fresh_protection_def date_of_def Let_def)
  have b: "check_max_daily_loss 840 1000
        (fresh_protection\<lparr>current_day := Some 0, daily_start_balance := Some 1000\<rparr>)
     = Inr (True, fresh_protection\<lparr>current_day := Some 0, daily_start_balance := Some 1000\<rparr>)"
    by (simp add: check_max_daily_loss_def fresh_protection_def date_of_def Let_def
          max_daily_loss_pct_def)
  have w: "get_wallet_balance demo_exchange [] = 1000 \<and> get_wallet_balance loss_exchange [] = 840"
    by (simp add: demo_exchange_def loss_exchange_def)
  have e1: "fst (trading_iteration demo_exchange default_config demo_rules calm_market
              flat_engine) = DecisionExecuted"
    by code_simp
  have e2: "fst (trading_iteration loss_exchange default_config demo_rules calm_market ?s1)
              = DecisionExecuted"
    by code_simp
  have f: "protection_triggers (extreme_protection (snd (trading_iteration loss_exchange
        default_config demo_rules calm_market ?s1))) = []"
    by code_simp
  note t1 = daily_loss_limit_never_checked[where ex = demo_exchange and cfg = default_config
              and rules = demo_rules and all_market_data = calm_market and st = flat_engine,
              THEN conjunct1]
  note t2 = daily_loss_limit_never_checked[where ex = loss_exchange and cfg = default_config
              and rules = demo_rules and all_market_data = calm_market and st = ?s1,
              THEN conjunct1]
  have i: "daily_start_balance (extreme_protection flat_engine) = None"
    by (simp add: flat_engine_def fresh_protection_def)
  have g: "daily_start_balance (extreme_protection (snd (trading_iteration loss_exchange
        default_config demo_rules calm_market ?s1))) = None"
    using t1 t2 i by simp
  from a b w e1 e2 f g show ?thesis by blast
qed





end
